theory Spec2Isabelle
  imports Main
begin

section \<open>Configuration and session state (js/app.js, lines 10--22)\<close>

definition DB_VERSION :: nat where
  "DB_VERSION = 2"

definition COLLECTIONS :: "string list" where
  "COLLECTIONS = [''regions'', ''subregions'', ''countries'', ''states'']"

definition CONTRIBUTIONS_BASE :: string where
  "CONTRIBUTIONS_BASE =
     ''https://raw.githubusercontent.com/dr5hn/countries-states-cities-database/master/contributions/''"

subsection \<open>Records of the dataset\<close>

text \<open>
  A record of the dataset is a JSON object with an integer primary key \<open>id\<close> (the
  \<open>keyPath\<close> of every object store) and further properties. The model fixes this shape
  by type: snapshots are arrays of such objects. Numbers are integers.
\<close>

datatype jval = JNull | JBool bool | JNum int | JStr string

record item =
  item_id :: int
  item_fields :: "(string \<times> jval) list"

definition get_prop :: "item \<Rightarrow> string \<Rightarrow> jval option" where
  \<comment> \<open>the property read \<open>c.state_id\<close>; \<open>None\<close> is \<open>undefined\<close>\<close>
  "get_prop it p = (if p = ''id'' then Some (JNum (item_id it)) else map_of (item_fields it) p)"

subsection \<open>The persistent store (IndexedDB)\<close>

text \<open>
  An object store holds its index names (every index of this program has its own name
  as key path) and its records. A database that does not exist yet has version 0 and no
  object store.
\<close>

record object_store =
  indexNames :: "string list"
  records :: "item list"

record database =
  version :: nat
  objectStores :: "string \<rightharpoonup> object_store"

definition no_database :: database where
  "no_database = \<lparr>version = 0, objectStores = Map.empty\<rparr>"

subsection \<open>The page\<close>

datatype view =
    Markup
  | Placeholder
  | Rows "item list"
  | NoResults
  | LoadingCities
  | ErrorLoadingCities

datatype stat = StatCount nat | StatText string

text \<open>
  The document, as far as the program reads and writes it. An element that is absent
  from the document is \<open>None\<close>: every access in the source is guarded by a null check.
  \<open>tbodies\<close> are the elements of class \<open>X-tb\<close>, \<open>countBadges\<close> those with id
  \<open>X-count\<close>, \<open>statElements\<close> those with id \<open>stat-X\<close>, each keyed by \<open>X\<close>.
  \<open>loadingProgress\<close> is the width of the progress bar in percent; the bar's parent
  element carries the same number as \<open>aria-valuenow\<close>. \<open>loadingOverlay\<close> tells whether
  the overlay is still shown.
\<close>

record dom =
  loadingProgress :: "nat option"
  loadingStatus :: "string option"
  tbodies :: "string \<rightharpoonup> view"
  countBadges :: "string \<rightharpoonup> nat"
  statElements :: "string \<rightharpoonup> stat"
  loadingOverlay :: "bool option"

record selections =
  region :: "int option"
  subregion :: "int option"
  country :: "(int \<times> string) option"
  state :: "int option"

subsection \<open>The environment: network and platform texts\<close>

datatype body = Unparseable string | Parsed "item list"

datatype fetch_result = Rejected string | Response nat body

text \<open>
  What the platform supplies: the answer of the network to a \<open>fetch\<close> of a URL, the text
  of a DOMException by its name, and \<open>parseInt(n, 10)\<close> on a number \<open>n\<close>, which prints
  the number and reads the integer at the head of the print.
\<close>

record env =
  fetch :: "string \<Rightarrow> fetch_result"
  exception_text :: "string \<Rightarrow> string"
  parseInt :: "int \<Rightarrow> int"

definition ok :: "nat \<Rightarrow> bool" where
  \<comment> \<open>\<open>response.ok\<close>: the status is in the range 200--299\<close>
  "ok status = (200 \<le> status \<and> status \<le> 299)"

subsection \<open>Errors\<close>

text \<open>
  \<open>Error\<close> is an error the program builds itself with \<open>new Error(message)\<close>; the others
  come from the platform, with the platform's text: a rejected \<open>fetch\<close>, a rejected
  \<open>response.json()\<close>, a DOMException of IndexedDB (its name and text), a TypeError.
\<close>

datatype error =
    Error string
  | FetchRejected string
  | SyntaxError string
  | DOMException string string
  | TypeError string

fun message :: "error \<Rightarrow> string" where
  "message (Error m) = m"
| "message (FetchRejected m) = m"
| "message (SyntaxError m) = m"
| "message (DOMException n m) = m"
| "message (TypeError m) = m"

fun show_nat :: "nat \<Rightarrow> string" where
  "show_nat n =
     (if n < 10 then [''0123456789'' ! n]
      else show_nat (n div 10) @ [''0123456789'' ! (n mod 10)])"

declare show_nat.simps [simp del]

subsection \<open>Observable operations\<close>

datatype event =
    DeleteDatabase
  | OpenDB
  | Progress nat string
  | Count string
  | Fetch string
  | PutAll string "item list"
  | GetAll string
  | GetFromIndex string string int

record world =
  idb :: database
  db :: bool
  citiesCache :: "string \<rightharpoonup> item list"
  currentSelections :: selections
  page :: dom
  location_search :: string
  navigating :: bool
  trace :: "event list"

definition emit :: "event \<Rightarrow> world \<Rightarrow> world" where
  "emit e w = w\<lparr>trace := trace w @ [e]\<rparr>"

fun is_Fetch :: "event \<Rightarrow> bool" where
  "is_Fetch (Fetch u) = True"
| "is_Fetch _ = False"

fun is_PutAll :: "event \<Rightarrow> bool" where
  "is_PutAll (PutAll c xs) = True"
| "is_PutAll _ = False"

section \<open>Rendering (lines 364--549)\<close>

definition set_tbody :: "string \<Rightarrow> view \<Rightarrow> world \<Rightarrow> world" where
  "set_tbody t v w = w\<lparr>page := (page w)\<lparr>tbodies := (tbodies (page w))(t \<mapsto> v)\<rparr>\<rparr>"

definition updateCount :: "string \<Rightarrow> nat \<Rightarrow> world \<Rightarrow> world" where
  "updateCount t n w =
     (case countBadges (page w) t of
        None \<Rightarrow> w
      | Some _ \<Rightarrow> w\<lparr>page := (page w)\<lparr>countBadges := (countBadges (page w))(t \<mapsto> n)\<rparr>\<rparr>)"

definition renderRegions :: "item list \<Rightarrow> world \<Rightarrow> world" where
  "renderRegions regions w =
     (case tbodies (page w) ''regions'' of
        None \<Rightarrow> w
      | Some _ \<Rightarrow> updateCount ''regions'' (length regions) (set_tbody ''regions'' (Rows regions) w))"

definition render_list :: "string \<Rightarrow> item list \<Rightarrow> world \<Rightarrow> world" where
  \<comment> \<open>the common body of renderSubregions, renderCountries, renderStates, renderCities\<close>
  "render_list t xs w =
     (case tbodies (page w) t of
        None \<Rightarrow> w
      | Some _ \<Rightarrow>
          if length xs = 0 then updateCount t 0 (set_tbody t NoResults w)
          else updateCount t (length xs) (set_tbody t (Rows xs) w))"

definition renderSubregions :: "item list \<Rightarrow> world \<Rightarrow> world" where
  "renderSubregions = render_list ''subregions''"

definition renderCountries :: "item list \<Rightarrow> world \<Rightarrow> world" where
  "renderCountries = render_list ''countries''"

definition renderStates :: "item list \<Rightarrow> world \<Rightarrow> world" where
  "renderStates = render_list ''states''"

definition renderCities :: "item list \<Rightarrow> world \<Rightarrow> world" where
  "renderCities = render_list ''cities''"

definition clearColumn :: "string \<Rightarrow> world \<Rightarrow> world" where
  "clearColumn t w =
     updateCount t 0
       (case tbodies (page w) t of None \<Rightarrow> w | Some _ \<Rightarrow> set_tbody t Placeholder w)"

section \<open>Outcomes of asynchronous functions\<close>

text \<open>
  An \<open>async\<close> function either runs to its end (\<open>Done\<close>), throws (\<open>Threw\<close>), or waits
  for ever on a promise that nothing resolves (\<open>Pending\<close>); each carries the world it
  leaves behind. Calls are modelled as running to their end without another handler
  interleaving.
\<close>

datatype outcome = Done world | Threw error world | Pending world

fun world_of :: "outcome \<Rightarrow> world" where
  "world_of (Done w) = w"
| "world_of (Threw err w) = w"
| "world_of (Pending w) = w"

fun and_then :: "outcome \<Rightarrow> (world \<Rightarrow> outcome) \<Rightarrow> outcome" where
  "and_then (Done w) f = f w"
| "and_then (Threw err w) f = Threw err w"
| "and_then (Pending w) f = Pending w"

definition events_since :: "world \<Rightarrow> world \<Rightarrow> event list" where
  "events_since w w' = drop (length (trace w)) (trace w')"

section \<open>IndexedDB functions (lines 86--202)\<close>

definition deleteDatabase :: "world \<Rightarrow> world" where
  \<comment> \<open>the platform is taken never to refuse the deletion\<close>
  "deleteDatabase w = emit DeleteDatabase (w\<lparr>idb := no_database\<rparr>)"

definition indexes_for :: "string \<Rightarrow> string list" where
  \<comment> \<open>the \<open>switch\<close> of \<open>onupgradeneeded\<close>\<close>
  "indexes_for collectionName =
     (if collectionName = ''subregions'' then [''region_id'']
      else if collectionName = ''countries'' then [''subregion_id'', ''iso2'']
      else if collectionName = ''states'' then [''country_id'', ''country_code'']
      else [])"

definition upgrade_store :: "string \<Rightarrow> (string \<rightharpoonup> object_store) \<Rightarrow> (string \<rightharpoonup> object_store)" where
  \<comment> \<open>one round of the \<open>forEach\<close> of \<open>onupgradeneeded\<close>\<close>
  "upgrade_store collectionName stores =
     (case stores collectionName of
        Some os \<Rightarrow> stores
      | None \<Rightarrow>
          stores(collectionName \<mapsto> \<lparr>indexNames = indexes_for collectionName, records = []\<rparr>))"

definition onupgradeneeded :: "(string \<rightharpoonup> object_store) \<Rightarrow> (string \<rightharpoonup> object_store)" where
  "onupgradeneeded stores = fold upgrade_store COLLECTIONS stores"

definition dom_exception :: "env \<Rightarrow> string \<Rightarrow> error" where
  "dom_exception e n = DOMException n (exception_text e n)"

text \<open>
  \<open>indexedDB.open(DB_NAME, DB_VERSION)\<close>: a stored version above the requested one is a
  VersionError; a stored version below it (0 when there is no database) runs
  \<open>onupgradeneeded\<close> before \<open>onsuccess\<close>.
\<close>

definition openDB :: "env \<Rightarrow> world \<Rightarrow> outcome" where
  "openDB e w =
     (let w1 = emit OpenDB w; d = idb w1 in
      if DB_VERSION < version d
      then Threw (Error (''IndexedDB error: VersionError: '' @ exception_text e ''VersionError'')) w1
      else if version d < DB_VERSION
      then Done (w1\<lparr>idb := \<lparr>version = DB_VERSION,
                              objectStores = onupgradeneeded (objectStores d)\<rparr>,
                      db := True\<rparr>)
      else Done (w1\<lparr>db := True\<rparr>))"

text \<open>
  IndexedDB returns the records of a store, and of one key of an index, in the order of
  their primary keys.
\<close>

definition getAllFromStore :: "env \<Rightarrow> string \<Rightarrow> world \<Rightarrow> (error + item list) \<times> world" where
  "getAllFromStore e storeName w =
     (if \<not> db w then (Inl (Error ''Database not initialized''), w)
      else case objectStores (idb w) storeName of
             None \<Rightarrow> (Inl (dom_exception e ''NotFoundError''), w)
           | Some os \<Rightarrow> (Inr (sort_key item_id (records os)), emit (GetAll storeName) w))"

definition getFromIndex :: "env \<Rightarrow> string \<Rightarrow> string \<Rightarrow> int \<Rightarrow> world \<Rightarrow> (error + item list) \<times> world" where
  "getFromIndex e storeName indexName v w =
     (if \<not> db w then (Inl (Error ''Database not initialized''), w)
      else case objectStores (idb w) storeName of
             None \<Rightarrow> (Inl (dom_exception e ''NotFoundError''), w)
           | Some os \<Rightarrow>
               if indexName \<notin> set (indexNames os) then (Inl (dom_exception e ''NotFoundError''), w)
               else (Inr (filter (\<lambda>it. get_prop it indexName = Some (JNum v))
                            (sort_key item_id (records os))),
                     emit (GetFromIndex storeName indexName v) w))"

section \<open>Data initialization (lines 211--316)\<close>

definition updateLoadingProgress :: "nat \<Rightarrow> string \<Rightarrow> world \<Rightarrow> world" where
  "updateLoadingProgress percent status w =
     (let d = page w;
          d1 = (case loadingProgress d of None \<Rightarrow> d | Some _ \<Rightarrow> d\<lparr>loadingProgress := Some percent\<rparr>);
          d2 = (case loadingStatus d1 of None \<Rightarrow> d1 | Some _ \<Rightarrow> d1\<lparr>loadingStatus := Some status\<rparr>)
      in emit (Progress percent status) (w\<lparr>page := d2\<rparr>))"

definition collection_url :: "string \<Rightarrow> string" where
  "collection_url collectionName =
     CONTRIBUTIONS_BASE @ collectionName @ ''/'' @ collectionName @ ''.json''"

text \<open>
  The requests of one \<open>readwrite\<close> transaction, \<open>store.add(item)\<close> for each item in turn.
  \<open>add\<close> fails with a ConstraintError when the key is already in the store; the source
  installs no handler, so the error aborts the transaction (\<open>None\<close>) and nothing of the
  batch is kept.
\<close>

fun add_all :: "item list \<Rightarrow> item list \<Rightarrow> item list option" where
  "add_all [] recs = Some recs"
| "add_all (it # its) recs =
     (if item_id it \<in> item_id ` set recs then None else add_all its (recs @ [it]))"

definition set_records :: "string \<Rightarrow> item list \<Rightarrow> world \<Rightarrow> world" where
  "set_records c recs w =
     (case objectStores (idb w) c of
        None \<Rightarrow> w
      | Some os \<Rightarrow>
          w\<lparr>idb := (idb w)\<lparr>objectStores := (objectStores (idb w))(c \<mapsto> os\<lparr>records := recs\<rparr>)\<rparr>\<rparr>)"

text \<open>
  The branch \<open>count === 0\<close> (lines 237--256). The function waits for the transaction's
  \<open>oncomplete\<close> only: after an abort that event never comes.
\<close>

definition fetch_and_store :: "env \<Rightarrow> string \<Rightarrow> world \<Rightarrow> outcome" where
  "fetch_and_store e collectionName w =
     (let w1 = emit (Fetch (collection_url collectionName)) w in
      case fetch e (collection_url collectionName) of
        Rejected m \<Rightarrow> Threw (FetchRejected m) w1
      | Response status b \<Rightarrow>
          if \<not> ok status
          then Threw (Error (''Failed to fetch '' @ collectionName @ '': '' @ show_nat status)) w1
          else (case b of
                  Unparseable m \<Rightarrow> Threw (SyntaxError m) w1
                | Parsed data \<Rightarrow>
                    (case objectStores (idb w1) collectionName of
                       None \<Rightarrow> Threw (dom_exception e ''NotFoundError'') w1
                     | Some os \<Rightarrow>
                         (let w2 = emit (PutAll collectionName data) w1 in
                          case add_all data (records os) of
                            None \<Rightarrow> Pending w2
                          | Some recs \<Rightarrow> Done (set_records collectionName recs w2)))))"

text \<open>One round of the \<open>for\<close> loop of \<open>initializeData\<close> (lines 228--264).\<close>

definition seed_collection :: "env \<Rightarrow> nat \<Rightarrow> string \<Rightarrow> world \<Rightarrow> outcome" where
  "seed_collection e progress collectionName w =
     (let w1 = updateLoadingProgress progress (''Loading '' @ collectionName @ ''...'') w in
      if \<not> db w1 then Threw (TypeError ''db is null'') w1
      else case objectStores (idb w1) collectionName of
        None \<Rightarrow> Threw (dom_exception e ''NotFoundError'') w1
      | Some os \<Rightarrow>
          and_then
            (if length (records os) = 0 then fetch_and_store e collectionName (emit (Count collectionName) w1)
             else Done (emit (Count collectionName) w1))
            (\<lambda>w3. if collectionName = ''regions''
                  then (case getAllFromStore e ''regions'' w3 of
                          (Inl err, w4) \<Rightarrow> Threw err w4
                        | (Inr regions, w4) \<Rightarrow> Done (renderRegions regions w4))
                  else Done w3))"

fun seed_all :: "env \<Rightarrow> nat \<Rightarrow> nat \<Rightarrow> string list \<Rightarrow> world \<Rightarrow> outcome" where
  "seed_all e progress progressStep [] w = Done w"
| "seed_all e progress progressStep (collectionName # rest) w =
     and_then (seed_collection e progress collectionName w)
       (seed_all e (progress + progressStep) progressStep rest)"

definition set_stat :: "string \<Rightarrow> stat \<Rightarrow> world \<Rightarrow> world" where
  "set_stat k v w =
     (case statElements (page w) k of
        None \<Rightarrow> w
      | Some _ \<Rightarrow> w\<lparr>page := (page w)\<lparr>statElements := (statElements (page w))(k \<mapsto> v)\<rparr>\<rparr>)"

definition updateStatistics :: "env \<Rightarrow> world \<Rightarrow> world" where
  "updateStatistics e w =
     (case getAllFromStore e ''regions'' w of
        (Inl err, w1) \<Rightarrow> w1
      | (Inr regions, w1) \<Rightarrow>
     (case getAllFromStore e ''subregions'' w1 of
        (Inl err, w2) \<Rightarrow> w2
      | (Inr subregions, w2) \<Rightarrow>
     (case getAllFromStore e ''countries'' w2 of
        (Inl err, w3) \<Rightarrow> w3
      | (Inr countries, w3) \<Rightarrow>
     (case getAllFromStore e ''states'' w3 of
        (Inl err, w4) \<Rightarrow> w4
      | (Inr states, w4) \<Rightarrow>
          set_stat ''cities'' (StatText ''~150k'')
            (set_stat ''states'' (StatCount (length states))
              (set_stat ''countries'' (StatCount (length countries))
                (set_stat ''subregions'' (StatCount (length subregions))
                  (set_stat ''regions'' (StatCount (length regions)) w4))))))))"

definition hideLoadingOverlay :: "world \<Rightarrow> world" where
  "hideLoadingOverlay w =
     (case loadingOverlay (page w) of
        None \<Rightarrow> w
      | Some _ \<Rightarrow> w\<lparr>page := (page w)\<lparr>loadingOverlay := Some False\<rparr>\<rparr>)"

subsection \<open>The query string\<close>

text \<open>
  \<open>new URLSearchParams(window.location.search).get(name)\<close>: the leading question mark is
  dropped, the rest is split at \<open>&\<close>, each non-empty piece at its first \<open>=\<close>; \<open>+\<close>
  becomes a space and percent escapes are decoded. Strings are byte sequences here.
\<close>

fun split_on :: "char \<Rightarrow> string \<Rightarrow> string list" where
  "split_on d [] = [[]]"
| "split_on d (c # cs) =
     (if c = d then [] # split_on d cs
      else (case split_on d cs of [] \<Rightarrow> [[c]] | x # xs \<Rightarrow> (c # x) # xs))"

definition hex_val :: "char \<Rightarrow> nat option" where
  "hex_val c =
     (if c \<in> set ''0123456789'' then Some (of_char c - 48)
      else if c \<in> set ''abcdef'' then Some (of_char c - 87)
      else if c \<in> set ''ABCDEF'' then Some (of_char c - 55)
      else None)"

fun percent_decode :: "string \<Rightarrow> string" where
  "percent_decode (c # h # l # cs) =
     (if c = CHR ''%''
      then (case (hex_val h, hex_val l) of
              (Some a, Some b) \<Rightarrow> char_of (16 * a + b) # percent_decode cs
            | _ \<Rightarrow> c # percent_decode (h # l # cs))
      else c # percent_decode (h # l # cs))"
| "percent_decode cs = cs"

definition form_decode :: "string \<Rightarrow> string" where
  "form_decode s = percent_decode (map (\<lambda>c. if c = CHR ''+'' then CHR '' '' else c) s)"

definition parse_pair :: "string \<Rightarrow> string \<times> string" where
  "parse_pair s =
     (form_decode (takeWhile (\<lambda>c. c \<noteq> CHR ''='') s),
      form_decode (drop 1 (dropWhile (\<lambda>c. c \<noteq> CHR ''='') s)))"

definition url_param_get :: "string \<Rightarrow> string \<Rightarrow> string option" where
  "url_param_get search name =
     map_of
       (map parse_pair
          (filter (\<lambda>s. s \<noteq> [])
             (split_on CHR ''&'' (case search of c # cs \<Rightarrow> if c = CHR ''?'' then cs else search
                                              | [] \<Rightarrow> []))))
       name"

subsection \<open>initializeData and the page load\<close>

text \<open>
  \<open>progressStep\<close> is \<open>100 / COLLECTIONS.length\<close>, which is exactly 25. Assigning to
  \<open>window.location.search\<close> starts a navigation to the page with that query string.
\<close>

definition initializeData :: "env \<Rightarrow> world \<Rightarrow> outcome" where
  "initializeData e w =
     (if url_param_get (location_search w) ''reset'' = Some ''true''
      then Done ((deleteDatabase w)\<lparr>location_search := [], navigating := True\<rparr>)
      else
        (case and_then (openDB e w)
                (\<lambda>w1. and_then (seed_all e 0 (100 div length COLLECTIONS) COLLECTIONS w1)
                   (\<lambda>w2. Done (hideLoadingOverlay
                                  (updateStatistics e (updateLoadingProgress 100 ''Complete!'' w2))))) of
           Threw err w' \<Rightarrow> Done (updateLoadingProgress 0 (''Error: '' @ message err) w')
         | Done w' \<Rightarrow> Done w'
         | Pending w' \<Rightarrow> Pending w'))"

definition new_session :: "dom \<Rightarrow> database \<Rightarrow> string \<Rightarrow> world" where
  \<comment> \<open>the globals as the script initialises them, in a freshly loaded document\<close>
  "new_session doc d search =
     \<lparr>idb = d, db = False, citiesCache = Map.empty,
      currentSelections = \<lparr>region = None, subregion = None, country = None, state = None\<rparr>,
      page = doc, location_search = search, navigating = False, trace = []\<rparr>"

definition page_load :: "env \<Rightarrow> dom \<Rightarrow> database \<Rightarrow> string \<Rightarrow> outcome" where
  \<comment> \<open>the \<open>load\<close> listener (lines 816--822)\<close>
  "page_load e doc d search = initializeData e (new_session doc d search)"

section \<open>Filter functions (lines 559--613)\<close>

text \<open>
  \<open>filterSubregions\<close> takes a number or a string, as its comment documents; the other
  filters take the identifiers the rendered rows pass them. Each function sets its field
  of \<open>currentSelections\<close> and nothing else of it; a failed query is logged and leaves the
  columns alone.
\<close>

datatype arg = Num int | Str string

definition filterSubregions :: "env \<Rightarrow> arg \<Rightarrow> world \<Rightarrow> world" where
  "filterSubregions e regionId w =
     (case regionId of
        Str s \<Rightarrow> w\<lparr>location_search := ''reset=true'', navigating := True\<rparr>
      | Num n \<Rightarrow>
          (let w1 = w\<lparr>currentSelections := (currentSelections w)\<lparr>region := Some n\<rparr>\<rparr> in
           case getFromIndex e ''subregions'' ''region_id'' n w1 of
             (Inl err, w2) \<Rightarrow> w2
           | (Inr subregions, w2) \<Rightarrow>
               clearColumn ''cities''
                 (clearColumn ''states''
                   (clearColumn ''countries'' (renderSubregions subregions w2)))))"

definition filterCountries :: "env \<Rightarrow> int \<Rightarrow> world \<Rightarrow> world" where
  "filterCountries e subregionId w =
     (let w1 = w\<lparr>currentSelections := (currentSelections w)\<lparr>subregion := Some subregionId\<rparr>\<rparr> in
      case getFromIndex e ''countries'' ''subregion_id'' subregionId w1 of
        (Inl err, w2) \<Rightarrow> w2
      | (Inr countries, w2) \<Rightarrow>
          clearColumn ''cities'' (clearColumn ''states'' (renderCountries countries w2)))"

definition filterStates :: "env \<Rightarrow> int \<Rightarrow> string \<Rightarrow> world \<Rightarrow> world" where
  "filterStates e countryId countryCode w =
     (let w1 = w\<lparr>currentSelections :=
                   (currentSelections w)\<lparr>country := Some (countryId, countryCode)\<rparr>\<rparr> in
      case getFromIndex e ''states'' ''country_id'' countryId w1 of
        (Inl err, w2) \<Rightarrow> w2
      | (Inr states, w2) \<Rightarrow> clearColumn ''cities'' (renderStates states w2))"

section \<open>The in-memory city overlay (filterCities, lines 620--644)\<close>

text \<open>
  \<open>citiesCache\<close> is a plain object: reading a key it does not own finds the properties
  it inherits from \<open>Object.prototype\<close>, all of which are truthy and none of which is an
  array.
\<close>

definition object_prototype_keys :: "string list" where
  "object_prototype_keys =
     [''constructor'', ''__defineGetter__'', ''__defineSetter__'', ''hasOwnProperty'',
      ''__lookupGetter__'', ''__lookupSetter__'', ''isPrototypeOf'', ''propertyIsEnumerable'',
      ''toString'', ''valueOf'', ''__proto__'', ''toLocaleString'']"

datatype 'a lookup = Undefined | Inherited | Own 'a

definition citiesCache_get :: "(string \<rightharpoonup> item list) \<Rightarrow> string \<Rightarrow> item list lookup" where
  "citiesCache_get c code =
     (case c code of
        Some arr \<Rightarrow> Own arr
      | None \<Rightarrow> if code \<in> set object_prototype_keys then Inherited else Undefined)"

definition cities_url :: "string \<Rightarrow> string" where
  "cities_url countryCode = CONTRIBUTIONS_BASE @ ''cities/'' @ countryCode @ ''.json''"

definition cities_of_state :: "env \<Rightarrow> int \<Rightarrow> item list \<Rightarrow> item list" where
  \<comment> \<open>\<open>arr.filter(c => c.state_id === parseInt(stateId, 10))\<close>\<close>
  "cities_of_state e stateId arr =
     filter (\<lambda>c. get_prop c ''state_id'' = Some (JNum (parseInt e stateId))) arr"

text \<open>
  \<open>citiesFor\<close> is the body of the \<open>try\<close> block of \<open>filterCities\<close> from the cache test
  to the filter (lines 629--638): it returns the cities to render, or the error thrown.
  An array is truthy even when empty, so the cache test only fails for a key that is
  absent.
\<close>

definition citiesFor :: "env \<Rightarrow> int \<Rightarrow> string \<Rightarrow> world \<Rightarrow> (error + item list) \<times> world" where
  "citiesFor e stateId countryCode w =
     (case citiesCache_get (citiesCache w) countryCode of
        Own arr \<Rightarrow> (Inr (cities_of_state e stateId arr), w)
      | Inherited \<Rightarrow> (Inl (TypeError ''citiesCache[countryCode].filter is not a function''), w)
      | Undefined \<Rightarrow>
          (let w1 = emit (Fetch (cities_url countryCode)) w in
           case fetch e (cities_url countryCode) of
             Rejected m \<Rightarrow> (Inl (FetchRejected m), w1)
           | Response status b \<Rightarrow>
               if \<not> ok status then (Inl (Error (''Failed to fetch cities: '' @ show_nat status)), w1)
               else (case b of
                       Unparseable m \<Rightarrow> (Inl (SyntaxError m), w1)
                     | Parsed arr \<Rightarrow>
                         (Inr (cities_of_state e stateId arr),
                          w1\<lparr>citiesCache := (citiesCache w1)(countryCode \<mapsto> arr)\<rparr>))))"

definition filterCities :: "env \<Rightarrow> int \<Rightarrow> string \<Rightarrow> world \<Rightarrow> world" where
  "filterCities e stateId countryCode w =
     (case tbodies (page w) ''cities'' of
        None \<Rightarrow> w
      | Some _ \<Rightarrow>
          (let w1 = set_tbody ''cities'' LoadingCities w;
               w2 = w1\<lparr>currentSelections := (currentSelections w1)\<lparr>state := Some stateId\<rparr>\<rparr>
           in case citiesFor e stateId countryCode w2 of
                (Inr cities, w3) \<Rightarrow> renderCities cities w3
              | (Inl err, w3) \<Rightarrow> set_tbody ''cities'' ErrorLoadingCities w3))"

text \<open>
  The drill-downs a user can make, and a sequence of them, each against the network of
  its moment.
\<close>

datatype action =
    SelectRegion arg
  | SelectSubregion int
  | SelectCountry int string
  | SelectState int string

fun perform :: "env \<Rightarrow> action \<Rightarrow> world \<Rightarrow> world" where
  "perform e (SelectRegion regionId) w = filterSubregions e regionId w"
| "perform e (SelectSubregion subregionId) w = filterCountries e subregionId w"
| "perform e (SelectCountry countryId countryCode) w = filterStates e countryId countryCode w"
| "perform e (SelectState stateId countryCode) w = filterCities e stateId countryCode w"

fun perform_all :: "(env \<times> action) list \<Rightarrow> world \<Rightarrow> world" where
  "perform_all [] w = w"
| "perform_all ((e, a) # rest) w = perform_all rest (perform e a w)"

text \<open>
  Modelled from the spec: the error taxonomy of section 7, which the source does not
  name. \<open>FetchFailed\<close> is a request that did not succeed or did not parse.
\<close>

fun is_FetchFailed :: "error \<Rightarrow> bool" where
  "is_FetchFailed (Error m) = (take 16 m = ''Failed to fetch '')"
| "is_FetchFailed (FetchRejected m) = True"
| "is_FetchFailed (SyntaxError m) = True"
| "is_FetchFailed _ = False"

fun fetch_fails :: "fetch_result \<Rightarrow> bool" where
  "fetch_fails (Rejected m) = True"
| "fetch_fails (Response status (Unparseable m)) = True"
| "fetch_fails (Response status (Parsed arr)) = (\<not> ok status)"

section \<open>Sample documents, snapshots and networks\<close>

definition sample_page :: dom where
  "sample_page =
     \<lparr>loadingProgress = Some 0, loadingStatus = Some ''Initializing...'',
      tbodies = [''regions'' \<mapsto> Markup, ''subregions'' \<mapsto> Markup, ''countries'' \<mapsto> Markup,
                 ''states'' \<mapsto> Markup, ''cities'' \<mapsto> Markup],
      countBadges = [''regions'' \<mapsto> 0, ''subregions'' \<mapsto> 0, ''countries'' \<mapsto> 0,
                     ''states'' \<mapsto> 0, ''cities'' \<mapsto> 0],
      statElements = [''regions'' \<mapsto> StatText ''-'', ''subregions'' \<mapsto> StatText ''-'',
                      ''countries'' \<mapsto> StatText ''-'', ''states'' \<mapsto> StatText ''-'',
                      ''cities'' \<mapsto> StatText ''-''],
      loadingOverlay = Some True\<rparr>"

text \<open>
  A sample of the platform's \<open>parseInt(n, 10)\<close> on numbers. A number below \<open>10^21\<close> in
  magnitude prints as its decimal numeral, which is read back whole. From \<open>10^21\<close> on a
  number prints in exponent notation (\<open>10^21\<close> itself, a number that is held exactly, as
  \<open>1e+21\<close>), of which only the sign and the one digit before the point are read; the
  sample takes that digit to be the first digit of the decimal numeral.
\<close>

fun leading_digit :: "nat \<Rightarrow> nat" where
  "leading_digit n = (if n < 10 then n else leading_digit (n div 10))"

declare leading_digit.simps [simp del]

definition js_parseInt :: "int \<Rightarrow> int" where
  "js_parseInt n =
     (if \<bar>n\<bar> < 10 ^ 21 then n else sgn n * int (leading_digit (nat \<bar>n\<bar>)))"

definition mumbai :: item where
  "mumbai = \<lparr>item_id = 1, item_fields = [(''name'', JStr ''Mumbai''), (''state_id'', JNum 100)]\<rparr>"

definition pune :: item where
  "pune = \<lparr>item_id = 2, item_fields = [(''name'', JStr ''Pune''), (''state_id'', JNum 200)]\<rparr>"

definition first_state_city :: item where
  "first_state_city = \<lparr>item_id = 3, item_fields = [(''name'', JStr ''Alpha''), (''state_id'', JNum 1)]\<rparr>"

definition far_state_city :: item where
  "far_state_city =
     \<lparr>item_id = 4,
      item_fields = [(''name'', JStr ''Omega''), (''state_id'', JNum 1000000000000000000000)]\<rparr>"

definition india_online :: env where
  "india_online =
     \<lparr>fetch = (\<lambda>u. if u = cities_url ''IN'' then Response 200 (Parsed [mumbai, pune])
                    else Response 404 (Unparseable ''Unexpected token'')),
      exception_text = (\<lambda>n. n), parseInt = js_parseInt\<rparr>"

definition offline :: env where
  "offline = \<lparr>fetch = (\<lambda>u. Rejected ''Failed to fetch''), exception_text = (\<lambda>n. n), parseInt = js_parseInt\<rparr>"

definition southern_asia :: item where
  "southern_asia = \<lparr>item_id = 10, item_fields = [(''name'', JStr ''Southern Asia''), (''region_id'', JNum 1)]\<rparr>"

definition eastern_asia :: item where
  "eastern_asia = \<lparr>item_id = 11, item_fields = [(''name'', JStr ''Eastern Asia''), (''region_id'', JNum 1)]\<rparr>"

definition asia :: item where
  "asia = \<lparr>item_id = 1, item_fields = [(''name'', JStr ''Asia'')]\<rparr>"

definition india :: item where
  "india = \<lparr>item_id = 101, item_fields = [(''name'', JStr ''India''), (''iso2'', JStr ''IN''), (''subregion_id'', JNum 10)]\<rparr>"

definition maharashtra :: item where
  "maharashtra = \<lparr>item_id = 100, item_fields = [(''name'', JStr ''Maharashtra''), (''country_id'', JNum 101), (''country_code'', JStr ''IN'')]\<rparr>"

definition half_built :: database where
  "half_built =
     \<lparr>version = 1,
      objectStores = [''subregions'' \<mapsto> \<lparr>indexNames = [], records = [southern_asia]\<rparr>]\<rparr>"

definition seeded :: database where
  "seeded =
     \<lparr>version = 2,
      objectStores =
        [''regions'' \<mapsto> \<lparr>indexNames = [], records = [asia]\<rparr>,
         ''subregions'' \<mapsto> \<lparr>indexNames = [''region_id''], records = [southern_asia, eastern_asia]\<rparr>,
         ''countries'' \<mapsto> \<lparr>indexNames = [''subregion_id'', ''iso2''], records = [india]\<rparr>,
         ''states'' \<mapsto> \<lparr>indexNames = [''country_id'', ''country_code''], records = [maharashtra]\<rparr>]\<rparr>"

definition browsing :: world where
  "browsing = (new_session sample_page seeded [])\<lparr>db := True\<rparr>"

text \<open>
  A session that has drilled down from Asia to India, and a session on a database that an
  earlier version of the program left with a \<open>subregions\<close> store without index.
\<close>

definition drilled_down :: world where
  "drilled_down =
     filterStates offline 101 ''IN''
       (filterCountries offline 10 (filterSubregions offline (Num 1) browsing))"

definition migrated :: world where
  "migrated = world_of (openDB offline (new_session sample_page half_built []))"

definition scenario_D :: env where
  "scenario_D =
     \<lparr>fetch = (\<lambda>u. if u = collection_url ''regions'' then Response 200 (Parsed [asia])
                    else if u = collection_url ''subregions''
                    then Response 200 (Parsed [southern_asia, eastern_asia])
                    else if u = collection_url ''countries''
                    then Response 500 (Unparseable ''Unexpected token'')
                    else Response 200 (Parsed [maharashtra])),
      exception_text = (\<lambda>n. n), parseInt = js_parseInt\<rparr>"

definition asia_again :: item where
  "asia_again = \<lparr>item_id = 1, item_fields = [(''name'', JStr ''Africa'')]\<rparr>"

definition duplicate_regions :: env where
  "duplicate_regions =
     \<lparr>fetch = (\<lambda>u. Response 200 (Parsed [asia, asia_again])), exception_text = (\<lambda>n. n), parseInt = js_parseInt\<rparr>"

definition empty_snapshots :: env where
  "empty_snapshots = \<lparr>fetch = (\<lambda>u. Response 200 (Parsed [])), exception_text = (\<lambda>n. n), parseInt = js_parseInt\<rparr>"

definition opened_fresh :: world where
  "opened_fresh = world_of (openDB offline (new_session sample_page no_database []))"

definition all_online :: env where
  "all_online =
     \<lparr>fetch = (\<lambda>u. if u = collection_url ''regions'' then Response 200 (Parsed [asia])
                    else if u = collection_url ''subregions''
                    then Response 200 (Parsed [southern_asia, eastern_asia])
                    else if u = collection_url ''countries'' then Response 200 (Parsed [india])
                    else Response 200 (Parsed [maharashtra])),
      exception_text = (\<lambda>n. n), parseInt = js_parseInt\<rparr>"

section \<open>Vocabulary for the proofs about seeding\<close>

text \<open>
  \<open>step_event c\<close> holds of the store and network operations a round of the loop makes
  for the collection \<open>c\<close>, \<open>about c\<close> also of its progress report. \<open>progress_reports\<close>
  lists the reports of a loop that goes through all its collections.
\<close>

fun is_Progress :: "event \<Rightarrow> bool" where
  "is_Progress (Progress p s) = True"
| "is_Progress _ = False"

definition loading_label :: "string \<Rightarrow> string" where
  "loading_label collectionName = ''Loading '' @ collectionName @ ''...''"

fun step_event :: "string \<Rightarrow> event \<Rightarrow> bool" where
  "step_event c (Count c') = (c' = c)"
| "step_event c (Fetch u) = (u = collection_url c)"
| "step_event c (PutAll c' d) = (c' = c)"
| "step_event c (GetAll c') = (c' = c)"
| "step_event c _ = False"

fun about :: "string \<Rightarrow> event \<Rightarrow> bool" where
  "about c (Progress p s) = (s = loading_label c)"
| "about c ev = step_event c ev"

fun is_GetAll :: "event \<Rightarrow> bool" where
  "is_GetAll (GetAll c) = True"
| "is_GetAll _ = False"

fun progress_reports :: "nat \<Rightarrow> nat \<Rightarrow> string list \<Rightarrow> event list" where
  "progress_reports p st [] = []"
| "progress_reports p st (c # cs) = Progress p (loading_label c) # progress_reports (p + st) st cs"

section \<open>The city overlay: proofs\<close>

lemma citiesCache_set_tbody [simp]: "citiesCache (set_tbody t v w) = citiesCache w"
  by (simp add: set_tbody_def)

lemma citiesCache_updateCount [simp]: "citiesCache (updateCount t n w) = citiesCache w"
  by (simp add: updateCount_def split: option.splits)

lemma citiesCache_render_list [simp]: "citiesCache (render_list t xs w) = citiesCache w"
  by (simp add: render_list_def split: option.splits)

lemma citiesFor_keeps_entry:
  "citiesCache w c = Some arr \<Longrightarrow> citiesCache (snd (citiesFor e s c' w)) c = Some arr"
  by (auto simp: citiesFor_def citiesCache_get_def emit_def Let_def
      split: option.splits fetch_result.splits body.splits)

lemma filterCities_keeps_entry:
  "citiesCache w c = Some arr \<Longrightarrow> citiesCache (filterCities e s c' w) c = Some arr"
proof (cases "tbodies (page w) ''cities''")
  case None
  then show "citiesCache w c = Some arr \<Longrightarrow> ?thesis" by (simp add: filterCities_def)
next
  case (Some v)
  assume c: "citiesCache w c = Some arr"
  let ?w2 = "(set_tbody ''cities'' LoadingCities w)
               \<lparr>currentSelections := (currentSelections (set_tbody ''cities'' LoadingCities w))\<lparr>state := Some s\<rparr>\<rparr>"
  have "citiesCache ?w2 c = Some arr" using c by simp
  from citiesFor_keeps_entry [OF this, of e s c']
  show ?thesis using Some
    by (cases "citiesFor e s c' ?w2") (auto simp: filterCities_def Let_def renderCities_def split: sum.splits)
qed

lemma citiesFor_hit:
  "citiesCache w code = Some arr \<Longrightarrow> citiesFor e s code w = (Inr (cities_of_state e s arr), w)"
  by (simp add: citiesFor_def citiesCache_get_def)

lemma citiesFor_first_success:
  assumes "citiesCache w code = None" and "citiesFor e s code w = (Inr cs, w1)"
  shows "\<exists>arr. citiesCache w1 code = Some arr \<and> trace w1 = trace w @ [Fetch (cities_url code)]"
  using assms
  by (auto simp: citiesFor_def citiesCache_get_def emit_def Let_def
      split: if_splits fetch_result.splits body.splits)

lemma citiesFor_miss_trace:
  "citiesCache_get (citiesCache w) code = Undefined \<Longrightarrow>
     trace (snd (citiesFor e s code w)) = trace w @ [Fetch (cities_url code)]"
  by (simp add: citiesFor_def emit_def Let_def split: fetch_result.splits body.splits)

lemma citiesFor_failure:
  assumes "citiesCache_get (citiesCache w) code = Undefined"
    and "fetch_fails (fetch e (cities_url code))"
  shows "\<exists>err. citiesFor e s code w = (Inl err, emit (Fetch (cities_url code)) w) \<and> is_FetchFailed err"
proof (cases "fetch e (cities_url code)")
  case (Rejected m)
  with assms(1) show ?thesis by (simp add: citiesFor_def Let_def)
next
  case (Response status b)
  show ?thesis
  proof (cases "ok status")
    case False
    with Response assms(1) show ?thesis by (simp add: citiesFor_def Let_def)
  next
    case True
    with Response assms(2) obtain m where "b = Unparseable m" by (cases b) auto
    with True Response assms(1) show ?thesis by (simp add: citiesFor_def Let_def)
  qed
qed

lemma Undefined_iff:
  "citiesCache_get c code = Undefined \<longleftrightarrow> c code = None \<and> code \<notin> set object_prototype_keys"
  by (simp add: citiesCache_get_def split: option.splits)

lemma trace_set_tbody [simp]: "trace (set_tbody t v w) = trace w"
  by (simp add: set_tbody_def)

lemma trace_updateCount [simp]: "trace (updateCount t n w) = trace w"
  by (simp add: updateCount_def split: option.splits)

lemma trace_render_list [simp]: "trace (render_list t xs w) = trace w"
  by (simp add: render_list_def split: option.splits)

lemma tbodies_set_tbody [simp]: "tbodies (page (set_tbody t v w)) = (tbodies (page w))(t \<mapsto> v)"
  by (simp add: set_tbody_def)

lemma tbodies_updateCount [simp]: "tbodies (page (updateCount t n w)) = tbodies (page w)"
  by (simp add: updateCount_def split: option.splits)

lemma filterCities_unfold:
  "tbodies (page w) ''cities'' = Some v \<Longrightarrow>
     filterCities e s code w =
       (case citiesFor e s code
               ((set_tbody ''cities'' LoadingCities w)
                  \<lparr>currentSelections :=
                     (currentSelections (set_tbody ''cities'' LoadingCities w))\<lparr>state := Some s\<rparr>\<rparr>) of
          (Inr cities, w3) \<Rightarrow> renderCities cities w3
        | (Inl err, w3) \<Rightarrow> set_tbody ''cities'' ErrorLoadingCities w3)"
  by (simp add: filterCities_def Let_def)

lemma filterCities_miss_trace:
  assumes "citiesCache_get (citiesCache w) code = Undefined" and "tbodies (page w) ''cities'' = Some v"
  shows "trace (filterCities e s code w) = trace w @ [Fetch (cities_url code)]"
proof -
  let ?w2 = "(set_tbody ''cities'' LoadingCities w)
               \<lparr>currentSelections :=
                  (currentSelections (set_tbody ''cities'' LoadingCities w))\<lparr>state := Some s\<rparr>\<rparr>"
  have "citiesCache_get (citiesCache ?w2) code = Undefined" using assms(1) by simp
  from citiesFor_miss_trace [OF this, of e s]
  have "trace (snd (citiesFor e s code ?w2)) = trace w @ [Fetch (cities_url code)]" by simp
  then show ?thesis
    unfolding filterCities_unfold [OF assms(2)]
    by (cases "citiesFor e s code ?w2") (auto simp: renderCities_def split: sum.splits)
qed

lemma filterCities_failure:
  assumes "citiesCache_get (citiesCache w) code = Undefined"
    and "fetch_fails (fetch e (cities_url code))"
    and "tbodies (page w) ''cities'' = Some v"
  shows "tbodies (page (filterCities e s code w)) ''cities'' = Some ErrorLoadingCities \<and>
         citiesCache (filterCities e s code w) = citiesCache w"
proof -
  let ?w2 = "(set_tbody ''cities'' LoadingCities w)
               \<lparr>currentSelections :=
                  (currentSelections (set_tbody ''cities'' LoadingCities w))\<lparr>state := Some s\<rparr>\<rparr>"
  have "citiesCache_get (citiesCache ?w2) code = Undefined" using assms(1) by simp
  from citiesFor_failure [OF this assms(2), of s]
  obtain err where "citiesFor e s code ?w2 = (Inl err, emit (Fetch (cities_url code)) ?w2)"
    by blast
  then show ?thesis
    unfolding filterCities_unfold [OF assms(3)] by (simp add: emit_def)
qed

text \<open>
  Claim C8. When the city list of a country code has to be fetched and the fetch fails
  (rejected, non-success status or unparseable body), \<open>citiesFor\<close> fails with a
  FetchFailed error, the overlay is unchanged and has no entry for the code,
  \<open>filterCities\<close> shows the inline error in place of the results, and a later call with
  the same code fetches again.
\<close>

theorem city_fetch_failure_retry:
  assumes "citiesCache_get (citiesCache w) code = Undefined"
    and "fetch_fails (fetch e (cities_url code))"
  shows "\<exists>err w'. citiesFor e s code w = (Inl err, w') \<and> is_FetchFailed err \<and>
           citiesCache w' = citiesCache w \<and> citiesCache w' code = None \<and>
           trace w' = trace w @ [Fetch (cities_url code)] \<and>
           (\<forall>e2 s2. trace (snd (citiesFor e2 s2 code w')) = trace w' @ [Fetch (cities_url code)]) \<and>
           (tbodies (page w) ''cities'' \<noteq> None \<longrightarrow>
              tbodies (page (filterCities e s code w)) ''cities'' = Some ErrorLoadingCities \<and>
              citiesCache (filterCities e s code w) code = None \<and>
              (\<forall>e2 s2. trace (filterCities e2 s2 code (filterCities e s code w)) =
                          trace (filterCities e s code w) @ [Fetch (cities_url code)]))"
proof -
  let ?w' = "emit (Fetch (cities_url code)) w"
  from citiesFor_failure [OF assms, of s]
  obtain err where cf: "citiesFor e s code w = (Inl err, ?w')" and ff: "is_FetchFailed err"
    by blast
  have same: "citiesCache ?w' = citiesCache w" by (simp add: emit_def)
  have absent: "citiesCache w code = None" using assms(1) by (simp add: Undefined_iff)
  have tr: "trace ?w' = trace w @ [Fetch (cities_url code)]" by (simp add: emit_def)
  have retry: "trace (snd (citiesFor e2 s2 code ?w')) = trace ?w' @ [Fetch (cities_url code)]" for e2 s2
    by (rule citiesFor_miss_trace) (simp add: same assms(1))
  have shown: "tbodies (page (filterCities e s code w)) ''cities'' = Some ErrorLoadingCities \<and>
      citiesCache (filterCities e s code w) code = None \<and>
      (\<forall>e2 s2. trace (filterCities e2 s2 code (filterCities e s code w)) =
                  trace (filterCities e s code w) @ [Fetch (cities_url code)])"
    if "tbodies (page w) ''cities'' \<noteq> None"
  proof -
    from that obtain v where v: "tbodies (page w) ''cities'' = Some v" by blast
    note f = filterCities_failure [OF assms v, of s]
    from f have u: "citiesCache_get (citiesCache (filterCities e s code w)) code = Undefined"
      using assms(1) by simp
    from f have "trace (filterCities e2 s2 code (filterCities e s code w)) =
                   trace (filterCities e s code w) @ [Fetch (cities_url code)]" for e2 s2
      by (intro filterCities_miss_trace [OF u]) simp
    with f absent show ?thesis by simp
  qed
  from cf ff same absent tr retry shown show ?thesis by (intro exI [of _ err] exI [of _ ?w']) simp
qed

theorem city_fetch_failure_retry_witness:
  "citiesCache_get (citiesCache (new_session sample_page no_database [])) ''IN'' = Undefined \<and>
   fetch_fails (fetch offline (cities_url ''IN'')) \<and>
   tbodies (page (filterCities offline 100 ''IN'' (new_session sample_page no_database []))) ''cities''
     = Some ErrorLoadingCities \<and>
   citiesCache (filterCities offline 100 ''IN'' (new_session sample_page no_database [])) ''IN'' = None \<and>
   trace (filterCities india_online 100 ''IN''
            (filterCities offline 100 ''IN'' (new_session sample_page no_database [])))
     = [Fetch (cities_url ''IN''), Fetch (cities_url ''IN'')]"
proof -
  let ?w = "new_session sample_page no_database []"
  have h1: "citiesCache_get (citiesCache ?w) ''IN'' = Undefined"
    by (simp add: new_session_def citiesCache_get_def object_prototype_keys_def)
  have h2: "fetch_fails (fetch offline (cities_url ''IN''))"
    by (simp add: offline_def)
  have h3: "tbodies (page ?w) ''cities'' \<noteq> None"
    by (simp add: new_session_def sample_page_def)
  from city_fetch_failure_retry [OF h1 h2, of 100] obtain err w'
    where cf: "citiesFor offline 100 ''IN'' ?w = (Inl err, w')"
      and tr: "trace w' = trace ?w @ [Fetch (cities_url ''IN'')]"
      and sh: "tbodies (page ?w) ''cities'' \<noteq> None \<longrightarrow>
              tbodies (page (filterCities offline 100 ''IN'' ?w)) ''cities'' = Some ErrorLoadingCities \<and>
              citiesCache (filterCities offline 100 ''IN'' ?w) ''IN'' = None \<and>
              (\<forall>e2 s2. trace (filterCities e2 s2 ''IN'' (filterCities offline 100 ''IN'' ?w)) =
                          trace (filterCities offline 100 ''IN'' ?w) @ [Fetch (cities_url ''IN'')])"
    by blast
  have "trace (filterCities offline 100 ''IN'' ?w) = trace ?w @ [Fetch (cities_url ''IN'')]"
    using h1 h3 by (auto intro: filterCities_miss_trace)
  then have "trace (filterCities offline 100 ''IN'' ?w) = [Fetch (cities_url ''IN'')]"
    by (simp add: new_session_def)
  with sh h1 h2 h3 show ?thesis by simp
qed

section \<open>Schema migration, reset and region selection: proofs\<close>

lemma upgrade_store_apply:
  "upgrade_store n stores c =
     (if c = n
      then (case stores c of
              Some os \<Rightarrow> Some os
            | None \<Rightarrow> Some \<lparr>indexNames = indexes_for c, records = []\<rparr>)
      else stores c)"
  by (simp add: upgrade_store_def split: option.splits)

lemma fold_upgrade_store_apply:
  "fold upgrade_store ns stores c =
     (if c \<in> set ns
      then (case stores c of
              Some os \<Rightarrow> Some os
            | None \<Rightarrow> Some \<lparr>indexNames = indexes_for c, records = []\<rparr>)
      else stores c)"
proof (induction ns arbitrary: stores)
  case Nil
  show ?case by simp
next
  case (Cons n ns)
  have "fold upgrade_store (n # ns) stores c = fold upgrade_store ns (upgrade_store n stores) c"
    by simp
  also have "\<dots> =
     (if c \<in> set ns
      then (case upgrade_store n stores c of
              Some os \<Rightarrow> Some os
            | None \<Rightarrow> Some \<lparr>indexNames = indexes_for c, records = []\<rparr>)
      else upgrade_store n stores c)"
    by (rule Cons.IH)
  also have "\<dots> =
     (if c \<in> set (n # ns)
      then (case stores c of
              Some os \<Rightarrow> Some os
            | None \<Rightarrow> Some \<lparr>indexNames = indexes_for c, records = []\<rparr>)
      else stores c)"
    unfolding upgrade_store_apply by (auto split: option.splits)
  finally show ?case .
qed

lemma onupgradeneeded_apply:
  "onupgradeneeded stores c =
     (if c \<in> set COLLECTIONS
      then (case stores c of
              Some os \<Rightarrow> Some os
            | None \<Rightarrow> Some \<lparr>indexNames = indexes_for c, records = []\<rparr>)
      else stores c)"
  by (simp only: onupgradeneeded_def fold_upgrade_store_apply)

lemma onupgradeneeded_idem:
  "onupgradeneeded (onupgradeneeded stores) = onupgradeneeded stores"
  by (rule ext) (simp add: onupgradeneeded_apply split: option.splits)

text \<open>
  Claim C2, on the code. A database at version 1 holds a \<open>subregions\<close> store that has
  no \<open>region_id\<close> index, the index the migration declares for that store. Opening it at
  version 2 runs the migration, which passes over the store because it exists: the
  database is at version 2 afterwards, and the store still has no index. The declared
  index that was not yet present has not been created, and the query that every
  selection of a region makes on it is refused with a NotFoundError.
\<close>

theorem migration_skips_index_of_existing_store:
  "openDB offline (new_session sample_page half_built []) =
     Done ((new_session sample_page half_built [])
             \<lparr>idb := \<lparr>version = 2,
                      objectStores = onupgradeneeded (objectStores half_built)\<rparr>,
              db := True, trace := [OpenDB]\<rparr>) \<and>
   indexes_for ''subregions'' = [''region_id''] \<and>
   onupgradeneeded (objectStores half_built) ''subregions''
     = Some \<lparr>indexNames = [], records = [southern_asia]\<rparr> \<and>
   onupgradeneeded (objectStores half_built) ''countries''
     = Some \<lparr>indexNames = [''subregion_id'', ''iso2''], records = []\<rparr> \<and>
   fst (getFromIndex offline ''subregions'' ''region_id'' 1
          (world_of (openDB offline (new_session sample_page half_built [])))) =
     Inl (DOMException ''NotFoundError'' ''NotFoundError'')"
  by (simp add: openDB_def emit_def new_session_def half_built_def DB_VERSION_def Let_def
      indexes_for_def onupgradeneeded_def COLLECTIONS_def upgrade_store_def getFromIndex_def
      dom_exception_def offline_def)

lemma url_param_reset: "url_param_get ''reset=true'' ''reset'' = Some ''true''"
  by (simp add: url_param_get_def parse_pair_def form_decode_def)

text \<open>
  Claim C10. Called with a string, \<open>filterSubregions\<close> only sets the query string to
  \<open>reset=true\<close> and starts the navigation: it makes no query and renders nothing. The
  page load with that query string deletes the database, clears the query string and
  does nothing else.
\<close>

theorem string_argument_starts_reset:
  "filterSubregions e (Str s) w = w\<lparr>location_search := ''reset=true'', navigating := True\<rparr> \<and>
   trace (filterSubregions e (Str s) w) = trace w \<and>
   page (filterSubregions e (Str s) w) = page w \<and>
   idb (filterSubregions e (Str s) w) = idb w \<and>
   page_load e' doc (idb (filterSubregions e (Str s) w))
       (location_search (filterSubregions e (Str s) w)) =
     Done ((new_session doc no_database [])\<lparr>navigating := True, trace := [DeleteDatabase]\<rparr>)"
  by (simp add: filterSubregions_def page_load_def initializeData_def new_session_def
      url_param_reset deleteDatabase_def emit_def)


theorem string_argument_starts_reset_witness:
  "location_search (filterSubregions offline (Str ''reset'') browsing) = ''reset=true'' \<and>
   trace (filterSubregions offline (Str ''reset'') browsing) = [] \<and>
   world_of (page_load offline sample_page (idb (filterSubregions offline (Str ''reset'') browsing))
       (location_search (filterSubregions offline (Str ''reset'') browsing))) =
     (new_session sample_page no_database [])\<lparr>navigating := True, trace := [DeleteDatabase]\<rparr>"
proof -
  note r = string_argument_starts_reset [of offline "''reset''" browsing offline sample_page]
  from r have 1: "location_search (filterSubregions offline (Str ''reset'') browsing) = ''reset=true''"
    by simp
  from r have 2: "trace (filterSubregions offline (Str ''reset'') browsing) = trace browsing"
    by blast
  from r have 3: "page_load offline sample_page (idb (filterSubregions offline (Str ''reset'') browsing))
       (location_search (filterSubregions offline (Str ''reset'') browsing)) =
     Done ((new_session sample_page no_database [])\<lparr>navigating := True, trace := [DeleteDatabase]\<rparr>)"
    by blast
  have t: "trace browsing = []"
    by (simp add: browsing_def new_session_def)
  from 1 2 3 t show ?thesis
    by (simp only: world_of.simps simp_thms)
qed

lemma getFromIndex_frame:
  "currentSelections (snd (getFromIndex e st ix v w)) = currentSelections w \<and>
   page (snd (getFromIndex e st ix v w)) = page w \<and>
   idb (snd (getFromIndex e st ix v w)) = idb w \<and>
   citiesCache (snd (getFromIndex e st ix v w)) = citiesCache w"
  by (simp add: getFromIndex_def emit_def split: option.splits)

lemma getFromIndex_success:
  assumes "db w" and "objectStores (idb w) st = Some os" and "ix \<in> set (indexNames os)"
  shows "getFromIndex e st ix v w =
           (Inr (filter (\<lambda>it. get_prop it ix = Some (JNum v)) (sort_key item_id (records os))),
            emit (GetFromIndex st ix v) w)"
  using assms by (simp add: getFromIndex_def)

lemma currentSelections_set_tbody [simp]: "currentSelections (set_tbody t v w) = currentSelections w"
  by (simp add: set_tbody_def)

lemma currentSelections_updateCount [simp]: "currentSelections (updateCount t n w) = currentSelections w"
  by (simp add: updateCount_def split: option.splits)

lemma currentSelections_render_list [simp]: "currentSelections (render_list t xs w) = currentSelections w"
  by (simp add: render_list_def split: option.splits)

lemma currentSelections_clearColumn [simp]: "currentSelections (clearColumn t w) = currentSelections w"
  by (simp add: clearColumn_def split: option.splits)

lemma currentSelections_filterSubregions:
  "currentSelections (filterSubregions e (Num n) w) = (currentSelections w)\<lparr>region := Some n\<rparr>"
proof -
  let ?w1 = "w\<lparr>currentSelections := (currentSelections w)\<lparr>region := Some n\<rparr>\<rparr>"
  have "currentSelections (snd (getFromIndex e ''subregions'' ''region_id'' n ?w1)) =
          (currentSelections w)\<lparr>region := Some n\<rparr>"
    by (simp add: getFromIndex_frame)
  then show ?thesis
    by (cases "getFromIndex e ''subregions'' ''region_id'' n ?w1")
       (auto simp: filterSubregions_def Let_def renderSubregions_def split: sum.splits)
qed

lemma currentSelections_filterCountries:
  "currentSelections (filterCountries e n w) = (currentSelections w)\<lparr>subregion := Some n\<rparr>"
proof -
  let ?w1 = "w\<lparr>currentSelections := (currentSelections w)\<lparr>subregion := Some n\<rparr>\<rparr>"
  have "currentSelections (snd (getFromIndex e ''countries'' ''subregion_id'' n ?w1)) =
          (currentSelections w)\<lparr>subregion := Some n\<rparr>"
    by (simp add: getFromIndex_frame)
  then show ?thesis
    by (cases "getFromIndex e ''countries'' ''subregion_id'' n ?w1")
       (auto simp: filterCountries_def Let_def renderCountries_def split: sum.splits)
qed

lemma tbodies_clearColumn:
  "tbodies (page (clearColumn t w)) u =
     (if u = t then map_option (\<lambda>v. Placeholder) (tbodies (page w) t) else tbodies (page w) u)"
  by (simp add: clearColumn_def split: option.splits)

lemma countBadges_set_tbody [simp]: "countBadges (page (set_tbody t v w)) = countBadges (page w)"
  by (simp add: set_tbody_def)

lemma countBadges_updateCount:
  "countBadges (page (updateCount t n w)) u =
     (if u = t then map_option (\<lambda>k. n) (countBadges (page w) t) else countBadges (page w) u)"
  by (simp add: updateCount_def split: option.splits)

lemma countBadges_clearColumn:
  "countBadges (page (clearColumn t w)) u =
     (if u = t then map_option (\<lambda>k. 0) (countBadges (page w) t) else countBadges (page w) u)"
  by (simp add: clearColumn_def countBadges_updateCount split: option.splits)

lemma tbodies_render_list:
  "tbodies (page (render_list t xs w)) u =
     (if u = t then map_option (\<lambda>v. if xs = [] then NoResults else Rows xs) (tbodies (page w) t)
      else tbodies (page w) u)"
  by (simp add: render_list_def split: option.splits)

lemma countBadges_render_list:
  "countBadges (page (render_list t xs w)) u =
     (if u = t \<and> tbodies (page w) t \<noteq> None
      then map_option (\<lambda>k. length xs) (countBadges (page w) t)
      else countBadges (page w) u)"
  by (simp add: render_list_def countBadges_updateCount split: option.splits)

lemma trace_clearColumn [simp]: "trace (clearColumn t w) = trace w"
  by (simp add: clearColumn_def split: option.splits)

lemma filterSubregions_success:
  assumes "db w" and "objectStores (idb w) ''subregions'' = Some os"
    and "''region_id'' \<in> set (indexNames os)"
  shows "filterSubregions e (Num n) w =
           clearColumn ''cities'' (clearColumn ''states'' (clearColumn ''countries''
             (render_list ''subregions''
                (filter (\<lambda>it. get_prop it ''region_id'' = Some (JNum n)) (sort_key item_id (records os)))
                (emit (GetFromIndex ''subregions'' ''region_id'' n)
                   (w\<lparr>currentSelections := (currentSelections w)\<lparr>region := Some n\<rparr>\<rparr>)))))"
proof -
  let ?w1 = "w\<lparr>currentSelections := (currentSelections w)\<lparr>region := Some n\<rparr>\<rparr>"
  have "getFromIndex e ''subregions'' ''region_id'' n ?w1 =
          (Inr (filter (\<lambda>it. get_prop it ''region_id'' = Some (JNum n)) (sort_key item_id (records os))),
           emit (GetFromIndex ''subregions'' ''region_id'' n) ?w1)"
    using assms by (intro getFromIndex_success) simp_all
  then show ?thesis
    by (simp add: filterSubregions_def Let_def renderSubregions_def)
qed

lemma filterSubregions_failure:
  assumes "\<not> (db w \<and> (\<exists>os. objectStores (idb w) ''subregions'' = Some os \<and>
                             ''region_id'' \<in> set (indexNames os)))"
  shows "filterSubregions e (Num n) w =
           w\<lparr>currentSelections := (currentSelections w)\<lparr>region := Some n\<rparr>\<rparr>"
  using assms
  by (auto simp: filterSubregions_def getFromIndex_def Let_def split: option.splits)

lemma filterCountries_success:
  assumes "db w" and "objectStores (idb w) ''countries'' = Some os"
    and "''subregion_id'' \<in> set (indexNames os)"
  shows "filterCountries e n w =
           clearColumn ''cities'' (clearColumn ''states''
             (render_list ''countries''
                (filter (\<lambda>it. get_prop it ''subregion_id'' = Some (JNum n)) (sort_key item_id (records os)))
                (emit (GetFromIndex ''countries'' ''subregion_id'' n)
                   (w\<lparr>currentSelections := (currentSelections w)\<lparr>subregion := Some n\<rparr>\<rparr>))))"
proof -
  let ?w1 = "w\<lparr>currentSelections := (currentSelections w)\<lparr>subregion := Some n\<rparr>\<rparr>"
  have "getFromIndex e ''countries'' ''subregion_id'' n ?w1 =
          (Inr (filter (\<lambda>it. get_prop it ''subregion_id'' = Some (JNum n)) (sort_key item_id (records os))),
           emit (GetFromIndex ''countries'' ''subregion_id'' n) ?w1)"
    using assms by (intro getFromIndex_success) simp_all
  then show ?thesis
    by (simp add: filterCountries_def Let_def renderCountries_def)
qed

lemma filterStates_success:
  assumes "db w" and "objectStores (idb w) ''states'' = Some os"
    and "''country_id'' \<in> set (indexNames os)"
  shows "filterStates e n code w =
           clearColumn ''cities''
             (render_list ''states''
                (filter (\<lambda>it. get_prop it ''country_id'' = Some (JNum n)) (sort_key item_id (records os)))
                (emit (GetFromIndex ''states'' ''country_id'' n)
                   (w\<lparr>currentSelections := (currentSelections w)\<lparr>country := Some (n, code)\<rparr>\<rparr>)))"
proof -
  let ?w1 = "w\<lparr>currentSelections := (currentSelections w)\<lparr>country := Some (n, code)\<rparr>\<rparr>"
  have "getFromIndex e ''states'' ''country_id'' n ?w1 =
          (Inr (filter (\<lambda>it. get_prop it ''country_id'' = Some (JNum n)) (sort_key item_id (records os))),
           emit (GetFromIndex ''states'' ''country_id'' n) ?w1)"
    using assms by (intro getFromIndex_success) simp_all
  then show ?thesis
    by (simp add: filterStates_def Let_def renderStates_def)
qed

lemma db_clearColumn [simp]: "db (clearColumn t w) = db w"
  by (simp add: clearColumn_def updateCount_def set_tbody_def split: option.splits)

lemma idb_clearColumn [simp]: "idb (clearColumn t w) = idb w"
  by (simp add: clearColumn_def updateCount_def set_tbody_def split: option.splits)

lemma db_render_list [simp]: "db (render_list t xs w) = db w"
  by (simp add: render_list_def updateCount_def set_tbody_def split: option.splits)

lemma idb_render_list [simp]: "idb (render_list t xs w) = idb w"
  by (simp add: render_list_def updateCount_def set_tbody_def split: option.splits)

lemma currentSelections_filterStates:
  "currentSelections (filterStates e n code w) = (currentSelections w)\<lparr>country := Some (n, code)\<rparr>"
proof -
  let ?w1 = "w\<lparr>currentSelections := (currentSelections w)\<lparr>country := Some (n, code)\<rparr>\<rparr>"
  have "currentSelections (snd (getFromIndex e ''states'' ''country_id'' n ?w1)) =
          (currentSelections w)\<lparr>country := Some (n, code)\<rparr>"
    by (simp add: getFromIndex_frame)
  then show ?thesis
    by (cases "getFromIndex e ''states'' ''country_id'' n ?w1")
       (auto simp: filterStates_def Let_def renderStates_def split: sum.splits)
qed

lemma browsing_stores:
  "db browsing"
  "objectStores (idb browsing) ''subregions'' =
     Some \<lparr>indexNames = [''region_id''], records = [southern_asia, eastern_asia]\<rparr>"
  "objectStores (idb browsing) ''countries'' =
     Some \<lparr>indexNames = [''subregion_id'', ''iso2''], records = [india]\<rparr>"
  "objectStores (idb browsing) ''states'' =
     Some \<lparr>indexNames = [''country_id'', ''country_code''], records = [maharashtra]\<rparr>"
  by (simp_all add: browsing_def new_session_def seeded_def)

lemma drilled_down_fields:
  "db drilled_down"
  "objectStores (idb drilled_down) ''subregions'' =
     Some \<lparr>indexNames = [''region_id''], records = [southern_asia, eastern_asia]\<rparr>"
  "currentSelections drilled_down =
     \<lparr>region = Some 1, subregion = Some 10, country = Some (101, ''IN''), state = None\<rparr>"
  "tbodies (page drilled_down) ''subregions'' = Some (Rows [southern_asia, eastern_asia])"
  "tbodies (page drilled_down) ''countries'' = Some (Rows [india])"
  "tbodies (page drilled_down) ''states'' = Some (Rows [maharashtra])"
  "countBadges (page drilled_down) ''countries'' = Some 1"
  "countBadges (page drilled_down) ''states'' = Some 1"
  "trace drilled_down =
     [GetFromIndex ''subregions'' ''region_id'' 1, GetFromIndex ''countries'' ''subregion_id'' 10,
      GetFromIndex ''states'' ''country_id'' 101]"
proof -
  let ?a = "filterSubregions offline (Num 1) browsing"
  let ?b = "filterCountries offline 10 ?a"
  let ?c = "filterStates offline 101 ''IN'' ?b"
  have i1: "''region_id'' \<in> set (indexNames \<lparr>indexNames = [''region_id''], records = [southern_asia, eastern_asia]\<rparr>)"
    and i2: "''subregion_id'' \<in> set (indexNames \<lparr>indexNames = [''subregion_id'', ''iso2''], records = [india]\<rparr>)"
    and i3: "''country_id'' \<in> set (indexNames \<lparr>indexNames = [''country_id'', ''country_code''], records = [maharashtra]\<rparr>)"
    by simp_all
  have p: "tbodies (page browsing) = tbodies sample_page"
      "countBadges (page browsing) = countBadges sample_page"
      "currentSelections browsing = \<lparr>region = None, subregion = None, country = None, state = None\<rparr>"
      "trace browsing = []"
    by (simp_all add: browsing_def new_session_def)
  have sp: "tbodies sample_page ''subregions'' = Some Markup"
      "tbodies sample_page ''countries'' = Some Markup"
      "tbodies sample_page ''states'' = Some Markup"
      "tbodies sample_page ''cities'' = Some Markup"
      "countBadges sample_page ''subregions'' = Some 0"
      "countBadges sample_page ''countries'' = Some 0"
      "countBadges sample_page ''states'' = Some 0"
      "countBadges sample_page ''cities'' = Some 0"
    by (simp_all add: sample_page_def)
  note fa = filterSubregions_success [OF browsing_stores(1) browsing_stores(2) i1, of offline 1]
  have a_db: "db ?a" and a_idb: "idb ?a = idb browsing"
    unfolding fa by (simp_all add: emit_def browsing_stores)
  have a_st: "objectStores (idb ?a) ''countries'' =
     Some \<lparr>indexNames = [''subregion_id'', ''iso2''], records = [india]\<rparr>"
    unfolding a_idb by (rule browsing_stores)
  have a_tb: "tbodies (page ?a) ''subregions'' = Some (Rows [southern_asia, eastern_asia])"
      "tbodies (page ?a) ''countries'' = Some Placeholder"
      "tbodies (page ?a) ''states'' = Some Placeholder"
      "tbodies (page ?a) ''cities'' = Some Placeholder"
    unfolding fa
    by (simp_all add: tbodies_clearColumn tbodies_render_list emit_def p sp
        southern_asia_def eastern_asia_def get_prop_def)
  have a_cb: "countBadges (page ?a) ''countries'' = Some 0"
      "countBadges (page ?a) ''states'' = Some 0"
      "countBadges (page ?a) ''cities'' = Some 0"
    unfolding fa
    by (simp_all add: countBadges_clearColumn countBadges_render_list emit_def p sp
        southern_asia_def eastern_asia_def get_prop_def)
  have a_tr: "trace ?a = [GetFromIndex ''subregions'' ''region_id'' 1]"
    unfolding fa by (simp add: emit_def p)
  note fb = filterCountries_success [OF a_db a_st i2, of offline 10]
  have b_db: "db ?b" and b_idb: "idb ?b = idb browsing"
    unfolding fb by (simp_all add: emit_def a_db a_idb)
  have b_st: "objectStores (idb ?b) ''states'' =
     Some \<lparr>indexNames = [''country_id'', ''country_code''], records = [maharashtra]\<rparr>"
    unfolding b_idb by (rule browsing_stores)
  have b_tb: "tbodies (page ?b) ''subregions'' = Some (Rows [southern_asia, eastern_asia])"
      "tbodies (page ?b) ''countries'' = Some (Rows [india])"
      "tbodies (page ?b) ''states'' = Some Placeholder"
      "tbodies (page ?b) ''cities'' = Some Placeholder"
    unfolding fb
    by (simp_all add: tbodies_clearColumn tbodies_render_list emit_def a_tb india_def get_prop_def)
  have b_cb: "countBadges (page ?b) ''countries'' = Some 1"
      "countBadges (page ?b) ''states'' = Some 0"
    unfolding fb
    by (simp_all add: countBadges_clearColumn countBadges_render_list emit_def a_tb a_cb
        india_def get_prop_def)
  have b_tr: "trace ?b = [GetFromIndex ''subregions'' ''region_id'' 1,
                          GetFromIndex ''countries'' ''subregion_id'' 10]"
    unfolding fb by (simp add: emit_def a_tr)
  note fc = filterStates_success [OF b_db b_st i3, of offline 101 "''IN''"]
  show "db drilled_down"
    unfolding drilled_down_def fc by (simp add: emit_def b_db)
  have c_idb: "idb ?c = idb browsing"
    unfolding fc by (simp add: emit_def b_idb)
  show "objectStores (idb drilled_down) ''subregions'' =
     Some \<lparr>indexNames = [''region_id''], records = [southern_asia, eastern_asia]\<rparr>"
    unfolding drilled_down_def c_idb by (rule browsing_stores)
  show "currentSelections drilled_down =
     \<lparr>region = Some 1, subregion = Some 10, country = Some (101, ''IN''), state = None\<rparr>"
    unfolding drilled_down_def
    by (simp add: currentSelections_filterSubregions currentSelections_filterCountries
        currentSelections_filterStates p)
  show "tbodies (page drilled_down) ''subregions'' = Some (Rows [southern_asia, eastern_asia])"
    unfolding drilled_down_def fc
    by (simp add: tbodies_clearColumn tbodies_render_list emit_def b_tb)
  show "tbodies (page drilled_down) ''countries'' = Some (Rows [india])"
    unfolding drilled_down_def fc
    by (simp add: tbodies_clearColumn tbodies_render_list emit_def b_tb)
  show "tbodies (page drilled_down) ''states'' = Some (Rows [maharashtra])"
    unfolding drilled_down_def fc
    by (simp add: tbodies_clearColumn tbodies_render_list emit_def b_tb maharashtra_def get_prop_def)
  show "countBadges (page drilled_down) ''countries'' = Some 1"
    unfolding drilled_down_def fc
    by (simp add: countBadges_clearColumn countBadges_render_list emit_def b_tb b_cb)
  show "countBadges (page drilled_down) ''states'' = Some 1"
    unfolding drilled_down_def fc
    by (simp add: countBadges_clearColumn countBadges_render_list emit_def b_tb b_cb
        maharashtra_def get_prop_def)
  show "trace drilled_down =
     [GetFromIndex ''subregions'' ''region_id'' 1, GetFromIndex ''countries'' ''subregion_id'' 10,
      GetFromIndex ''states'' ''country_id'' 101]"
    unfolding drilled_down_def fc by (simp add: emit_def b_tr)
qed

lemma migrated_fields:
  "db migrated"
  "objectStores (idb migrated) ''subregions'' = Some \<lparr>indexNames = [], records = [southern_asia]\<rparr>"
  "currentSelections migrated = \<lparr>region = None, subregion = None, country = None, state = None\<rparr>"
  by (simp_all add: migrated_def openDB_def emit_def new_session_def half_built_def DB_VERSION_def
      Let_def onupgradeneeded_def COLLECTIONS_def upgrade_store_def)

text \<open>
  Claim C6, as the code has it. Every selection of a region by number sets the region
  selection and leaves the subregion, country and state selections as they were,
  whether the query for the subregions succeeds or fails. When the query succeeds, the
  subregions column shows the subregions of the region, and the countries, states and
  cities columns that the document has are reset to their placeholder with count 0.
  When it fails, because the database is not open or the store or its index is missing,
  nothing but the region selection changes.
\<close>

theorem region_selection_clears_columns_only:
  "currentSelections (filterSubregions e (Num n) w) = (currentSelections w)\<lparr>region := Some n\<rparr> \<and>
   (db w \<and> objectStores (idb w) ''subregions'' = Some os \<and> ''region_id'' \<in> set (indexNames os) \<longrightarrow>
      (\<forall>t \<in> {''countries'', ''states'', ''cities''}.
          tbodies (page (filterSubregions e (Num n) w)) t =
            map_option (\<lambda>v. Placeholder) (tbodies (page w) t) \<and>
          countBadges (page (filterSubregions e (Num n) w)) t =
            map_option (\<lambda>k. 0) (countBadges (page w) t)) \<and>
      tbodies (page (filterSubregions e (Num n) w)) ''subregions'' =
        map_option
          (\<lambda>v. let subs = filter (\<lambda>it. get_prop it ''region_id'' = Some (JNum n))
                               (sort_key item_id (records os))
               in if subs = [] then NoResults else Rows subs)
          (tbodies (page w) ''subregions'') \<and>
      trace (filterSubregions e (Num n) w) =
        trace w @ [GetFromIndex ''subregions'' ''region_id'' n]) \<and>
   (\<not> (db w \<and> (\<exists>os'. objectStores (idb w) ''subregions'' = Some os' \<and>
                        ''region_id'' \<in> set (indexNames os'))) \<longrightarrow>
      filterSubregions e (Num n) w =
        w\<lparr>currentSelections := (currentSelections w)\<lparr>region := Some n\<rparr>\<rparr>)"
proof (intro conjI impI)
  show "currentSelections (filterSubregions e (Num n) w) = (currentSelections w)\<lparr>region := Some n\<rparr>"
    by (rule currentSelections_filterSubregions)
next
  assume "\<not> (db w \<and> (\<exists>os'. objectStores (idb w) ''subregions'' = Some os' \<and>
                        ''region_id'' \<in> set (indexNames os')))"
  then show "filterSubregions e (Num n) w =
        w\<lparr>currentSelections := (currentSelections w)\<lparr>region := Some n\<rparr>\<rparr>"
    by (rule filterSubregions_failure)
next
  assume h: "db w \<and> objectStores (idb w) ''subregions'' = Some os \<and> ''region_id'' \<in> set (indexNames os)"
  then have h1: "db w" and h2: "objectStores (idb w) ''subregions'' = Some os"
    and h3: "''region_id'' \<in> set (indexNames os)" by simp_all
  note f = filterSubregions_success [OF h1 h2 h3, of e n]
  show "\<forall>t \<in> {''countries'', ''states'', ''cities''}.
          tbodies (page (filterSubregions e (Num n) w)) t =
            map_option (\<lambda>v. Placeholder) (tbodies (page w) t) \<and>
          countBadges (page (filterSubregions e (Num n) w)) t =
            map_option (\<lambda>k. 0) (countBadges (page w) t)"
  proof
    fix t :: string
    assume t: "t \<in> {''countries'', ''states'', ''cities''}"
    have tb: "tbodies (page (filterSubregions e (Num n) w)) t =
                map_option (\<lambda>v. Placeholder) (tbodies (page w) t)"
      using t unfolding f
      by (auto simp: tbodies_clearColumn tbodies_render_list emit_def)
    have cb: "countBadges (page (filterSubregions e (Num n) w)) t =
                map_option (\<lambda>k. 0) (countBadges (page w) t)"
      using t unfolding f
      by (auto simp: countBadges_clearColumn countBadges_render_list emit_def)
    from tb cb show "tbodies (page (filterSubregions e (Num n) w)) t =
            map_option (\<lambda>v. Placeholder) (tbodies (page w) t) \<and>
          countBadges (page (filterSubregions e (Num n) w)) t =
            map_option (\<lambda>k. 0) (countBadges (page w) t)" by blast
  qed
  show "tbodies (page (filterSubregions e (Num n) w)) ''subregions'' =
           map_option
             (\<lambda>v. let subs = filter (\<lambda>it. get_prop it ''region_id'' = Some (JNum n))
                                  (sort_key item_id (records os))
                  in if subs = [] then NoResults else Rows subs)
             (tbodies (page w) ''subregions'')"
    unfolding f by (simp add: tbodies_clearColumn tbodies_render_list emit_def Let_def)
  show "trace (filterSubregions e (Num n) w) =
              trace w @ [GetFromIndex ''subregions'' ''region_id'' n]"
    unfolding f by (simp add: emit_def)
qed

theorem region_selection_clears_columns_only_witness:
  "currentSelections drilled_down =
     \<lparr>region = Some 1, subregion = Some 10, country = Some (101, ''IN''), state = None\<rparr> \<and>
   tbodies (page drilled_down) ''countries'' = Some (Rows [india]) \<and>
   tbodies (page drilled_down) ''states'' = Some (Rows [maharashtra]) \<and>
   countBadges (page drilled_down) ''countries'' = Some 1 \<and>
   db drilled_down \<and>
   objectStores (idb drilled_down) ''subregions'' =
     Some \<lparr>indexNames = [''region_id''], records = [southern_asia, eastern_asia]\<rparr> \<and>
   currentSelections (filterSubregions offline (Num 1) drilled_down) =
     \<lparr>region = Some 1, subregion = Some 10, country = Some (101, ''IN''), state = None\<rparr> \<and>
   tbodies (page (filterSubregions offline (Num 1) drilled_down)) ''countries'' = Some Placeholder \<and>
   tbodies (page (filterSubregions offline (Num 1) drilled_down)) ''states'' = Some Placeholder \<and>
   countBadges (page (filterSubregions offline (Num 1) drilled_down)) ''countries'' = Some 0 \<and>
   tbodies (page (filterSubregions offline (Num 1) drilled_down)) ''subregions'' =
     Some (Rows [southern_asia, eastern_asia]) \<and>
   trace (filterSubregions offline (Num 1) drilled_down) =
     trace drilled_down @ [GetFromIndex ''subregions'' ''region_id'' 1] \<and>
   db migrated \<and>
   objectStores (idb migrated) ''subregions'' = Some \<lparr>indexNames = [], records = [southern_asia]\<rparr> \<and>
   filterSubregions offline (Num 1) migrated =
     migrated\<lparr>currentSelections :=
                \<lparr>region = Some 1, subregion = None, country = None, state = None\<rparr>\<rparr>"
proof -
  let ?os = "\<lparr>indexNames = [''region_id''], records = [southern_asia, eastern_asia]\<rparr>"
  note d = drilled_down_fields
  note r = region_selection_clears_columns_only [of offline 1 drilled_down ?os]
  have ok: "db drilled_down \<and> objectStores (idb drilled_down) ''subregions'' = Some ?os \<and>
            ''region_id'' \<in> set (indexNames ?os)"
    by (simp add: d)
  from r have r1: "currentSelections (filterSubregions offline (Num 1) drilled_down) =
     \<lparr>region = Some 1, subregion = Some 10, country = Some (101, ''IN''), state = None\<rparr>"
    by (simp add: d)
  from r ok have r2: "\<forall>t \<in> {''countries'', ''states'', ''cities''}.
          tbodies (page (filterSubregions offline (Num 1) drilled_down)) t =
            map_option (\<lambda>v. Placeholder) (tbodies (page drilled_down) t) \<and>
          countBadges (page (filterSubregions offline (Num 1) drilled_down)) t =
            map_option (\<lambda>k. 0) (countBadges (page drilled_down) t)"
    by blast
  from r2 have r2a: "tbodies (page (filterSubregions offline (Num 1) drilled_down)) ''countries'' = Some Placeholder"
    and r2b: "tbodies (page (filterSubregions offline (Num 1) drilled_down)) ''states'' = Some Placeholder"
    and r2c: "countBadges (page (filterSubregions offline (Num 1) drilled_down)) ''countries'' = Some 0"
    by (simp_all add: d)
  from r ok have "tbodies (page (filterSubregions offline (Num 1) drilled_down)) ''subregions'' =
        map_option
          (\<lambda>v. let subs = filter (\<lambda>it. get_prop it ''region_id'' = Some (JNum 1))
                               (sort_key item_id (records ?os))
               in if subs = [] then NoResults else Rows subs)
          (tbodies (page drilled_down) ''subregions'')"
    by blast
  then have r3: "tbodies (page (filterSubregions offline (Num 1) drilled_down)) ''subregions'' =
     Some (Rows [southern_asia, eastern_asia])"
    by (simp add: d Let_def southern_asia_def eastern_asia_def get_prop_def)
  from r ok have r4: "trace (filterSubregions offline (Num 1) drilled_down) =
     trace drilled_down @ [GetFromIndex ''subregions'' ''region_id'' 1]"
    by blast
  note m = migrated_fields
  have no: "\<not> (db migrated \<and> (\<exists>os'. objectStores (idb migrated) ''subregions'' = Some os' \<and>
                        ''region_id'' \<in> set (indexNames os')))"
    by (simp add: m)
  from region_selection_clears_columns_only [of offline 1 migrated ?os] no
  have "filterSubregions offline (Num 1) migrated =
        migrated\<lparr>currentSelections := (currentSelections migrated)\<lparr>region := Some 1\<rparr>\<rparr>"
    by blast
  then have r5: "filterSubregions offline (Num 1) migrated =
     migrated\<lparr>currentSelections :=
                \<lparr>region = Some 1, subregion = None, country = None, state = None\<rparr>\<rparr>"
    by (simp add: m)
  from d r1 r2a r2b r2c r3 r4 m r5 show ?thesis
    by (simp only: simp_thms)
qed

text \<open>
  Claim C6 as stated fails: after drilling down to a country, selecting another region
  leaves the subregion and country selections in place.
\<close>

theorem region_selection_keeps_lower_selections:
  "currentSelections
     (filterSubregions offline (Num 2)
        (filterStates offline 101 ''IN''
           (filterCountries offline 10 (filterSubregions offline (Num 1) browsing)))) =
   \<lparr>region = Some 2, subregion = Some 10, country = Some (101, ''IN''), state = None\<rparr>"
  by (simp add: currentSelections_filterSubregions currentSelections_filterCountries
      currentSelections_filterStates browsing_def new_session_def)

section \<open>Seeding: proofs\<close>

lemmas run_defs =
  page_load_def initializeData_def new_session_def url_param_get_def openDB_def emit_def
  no_database_def DB_VERSION_def COLLECTIONS_def onupgradeneeded_def upgrade_store_def
  indexes_for_def seed_collection_def updateLoadingProgress_def fetch_and_store_def
  getAllFromStore_def renderRegions_def set_tbody_def updateCount_def set_records_def
  dom_exception_def Let_def ok_def sample_page_def collection_url_def CONTRIBUTIONS_BASE_def

lemma scenario_D_trace:
  "trace (world_of (page_load scenario_D sample_page no_database [])) =
     [OpenDB,
      Progress 0 ''Loading regions...'', Count ''regions'', Fetch (collection_url ''regions''),
      PutAll ''regions'' [asia], GetAll ''regions'',
      Progress 25 ''Loading subregions...'', Count ''subregions'',
      Fetch (collection_url ''subregions''), PutAll ''subregions'' [southern_asia, eastern_asia],
      Progress 50 ''Loading countries...'', Count ''countries'', Fetch (collection_url ''countries''),
      Progress 0 ''Error: Failed to fetch countries: 500'']"
  by (simp add: run_defs scenario_D_def asia_def southern_asia_def eastern_asia_def
      show_nat.simps)

lemma updateLoadingProgress_simps [simp]:
  "trace (updateLoadingProgress p s w) = trace w @ [Progress p s]"
  "idb (updateLoadingProgress p s w) = idb w"
  "db (updateLoadingProgress p s w) = db w"
  by (simp_all add: updateLoadingProgress_def emit_def Let_def)

lemma emit_simps [simp]:
  "trace (emit ev w) = trace w @ [ev]"
  "idb (emit ev w) = idb w"
  "db (emit ev w) = db w"
  "page (emit ev w) = page w"
  by (simp_all add: emit_def)

lemma renderRegions_simps [simp]:
  "trace (renderRegions xs w) = trace w"
  "idb (renderRegions xs w) = idb w"
  "db (renderRegions xs w) = db w"
  by (simp_all add: renderRegions_def set_tbody_def updateCount_def split: option.splits)

lemma set_records_simps [simp]:
  "trace (set_records c recs w) = trace w"
  "db (set_records c recs w) = db w"
  by (simp_all add: set_records_def split: option.splits)

lemma getAllFromStore_shape:
  "(\<exists>err. getAllFromStore e n w = (Inl err, w)) \<or>
   (\<exists>xs. getAllFromStore e n w = (Inr xs, emit (GetAll n) w))"
  by (simp add: getAllFromStore_def split: option.splits)

lemma fetch_and_store_events:
  "\<exists>evs. trace (world_of (fetch_and_store e c w)) = trace w @ evs \<and> list_all (step_event c) evs"
  by (simp add: fetch_and_store_def Let_def split: fetch_result.splits body.splits option.splits)

lemma after_step_events:
  "\<exists>evs. trace (world_of (if c = ''regions''
                  then (case getAllFromStore e ''regions'' w of
                          (Inl err, w4) \<Rightarrow> Threw err w4
                        | (Inr regions, w4) \<Rightarrow> Done (renderRegions regions w4))
                  else Done w)) = trace w @ evs \<and> list_all (step_event c) evs"
  using getAllFromStore_shape [of e "''regions''" w] by auto

lemma and_then_events:
  assumes "trace (world_of r) = trace w @ evs1" and "P evs1"
    and "\<And>w3. r = Done w3 \<Longrightarrow> \<exists>evs2. trace (world_of (k w3)) = trace w3 @ evs2 \<and> P (evs1 @ evs2)"
  shows "\<exists>evs. trace (world_of (and_then r k)) = trace w @ evs \<and> P evs"
proof (cases r)
  case (Done w3)
  with assms(3) obtain evs2 where "trace (world_of (k w3)) = trace w3 @ evs2" "P (evs1 @ evs2)"
    by blast
  with Done assms(1) show ?thesis by auto
next
  case (Threw err w3)
  with assms(1,2) show ?thesis by auto
next
  case (Pending w3)
  with assms(1,2) show ?thesis by auto
qed

lemma seed_collection_absent:
  assumes "\<not> (db w \<and> objectStores (idb w) c \<noteq> None)"
  shows "\<exists>err. seed_collection e p c w = Threw err (updateLoadingProgress p (loading_label c) w)"
  using assms by (auto simp: seed_collection_def Let_def loading_label_def)

lemma seed_collection_present:
  assumes "db w" and "objectStores (idb w) c = Some os"
  shows "seed_collection e p c w =
           and_then
             (if records os = []
              then fetch_and_store e c (emit (Count c) (updateLoadingProgress p (loading_label c) w))
              else Done (emit (Count c) (updateLoadingProgress p (loading_label c) w)))
             (\<lambda>w3. if c = ''regions''
                   then (case getAllFromStore e ''regions'' w3 of
                           (Inl err, w4) \<Rightarrow> Threw err w4
                         | (Inr regions, w4) \<Rightarrow> Done (renderRegions regions w4))
                   else Done w3)"
  using assms by (simp add: seed_collection_def Let_def loading_label_def)

lemma seed_collection_present_events:
  assumes "db w" and "objectStores (idb w) c = Some os"
  shows "\<exists>evs. trace (world_of (seed_collection e p c w)) =
                 trace w @ Progress p (loading_label c) # Count c # evs \<and>
               list_all (step_event c) evs"
proof -
  let ?w2 = "emit (Count c) (updateLoadingProgress p (loading_label c) w)"
  let ?k = "\<lambda>w3. if c = ''regions''
                  then (case getAllFromStore e ''regions'' w3 of
                          (Inl err, w4) \<Rightarrow> Threw err w4
                        | (Inr regions, w4) \<Rightarrow> Done (renderRegions regions w4))
                  else Done w3"
  let ?r = "if records os = [] then fetch_and_store e c ?w2 else Done ?w2"
  from fetch_and_store_events [of e c ?w2]
  obtain evs1 where 1: "trace (world_of ?r) = trace ?w2 @ evs1"
    and 2: "list_all (step_event c) evs1"
    by (cases "records os = []") auto
  have "\<exists>evs. trace (world_of (and_then ?r ?k)) = trace ?w2 @ evs \<and> list_all (step_event c) evs"
  proof (rule and_then_events [where P = "list_all (step_event c)", OF 1 2])
    fix w3
    from after_step_events [of c e w3]
    show "\<exists>evs2. trace (world_of (?k w3)) = trace w3 @ evs2 \<and> list_all (step_event c) (evs1 @ evs2)"
      using 2 by auto
  qed
  then show ?thesis
    unfolding seed_collection_present [OF assms] by simp
qed

lemma seed_collection_events:
  "\<exists>evs. trace (world_of (seed_collection e p c w)) = trace w @ Progress p (loading_label c) # evs \<and>
         list_all (step_event c) evs"
proof (cases "db w \<and> objectStores (idb w) c \<noteq> None")
  case False
  from seed_collection_absent [OF this, of e p] show ?thesis by auto
next
  case True
  then obtain os where "objectStores (idb w) c = Some os" and "db w" by blast
  from seed_collection_present_events [OF this(2,1), of e p] show ?thesis by auto
qed

lemma seed_collection_Done_events:
  assumes "seed_collection e p c w = Done w'"
  shows "\<exists>evs. trace w' = trace w @ Progress p (loading_label c) # Count c # evs \<and>
               list_all (step_event c) evs"
proof (cases "db w \<and> objectStores (idb w) c \<noteq> None")
  case False
  from seed_collection_absent [OF this, of e p] assms show ?thesis by auto
next
  case True
  then obtain os where "objectStores (idb w) c = Some os" and "db w" by blast
  from seed_collection_present_events [OF this(2,1), of e p] assms show ?thesis by auto
qed

lemma seed_collection_fetch_not_ok:
  assumes "fetch e (collection_url c) = Response status b" and "\<not> ok status"
  shows "(\<exists>w'. seed_collection e p c w =
                 Threw (Error (''Failed to fetch '' @ c @ '': '' @ show_nat status)) w' \<and>
               trace w' = trace w @ [Progress p (loading_label c), Count c, Fetch (collection_url c)]) \<or>
         (\<exists>evs. trace (world_of (seed_collection e p c w)) =
                  trace w @ Progress p (loading_label c) # evs \<and>
                list_all (step_event c) evs \<and> Fetch (collection_url c) \<notin> set evs)"
proof (cases "db w \<and> objectStores (idb w) c \<noteq> None")
  case False
  from seed_collection_absent [OF this, of e p] show ?thesis by auto
next
  case True
  then obtain os where os: "objectStores (idb w) c = Some os" and d: "db w" by blast
  let ?w2 = "emit (Count c) (updateLoadingProgress p (loading_label c) w)"
  show ?thesis
  proof (cases "records os = []")
    case True
    have "fetch_and_store e c ?w2 =
            Threw (Error (''Failed to fetch '' @ c @ '': '' @ show_nat status))
              (emit (Fetch (collection_url c)) ?w2)"
      using assms by (simp add: fetch_and_store_def Let_def)
    with True show ?thesis
      unfolding seed_collection_present [OF d os] by simp
  next
    case False
    from getAllFromStore_shape [of e "''regions''" ?w2] False show ?thesis
      unfolding seed_collection_present [OF d os]
      by (auto simp: collection_url_def)
  qed
qed

lemma step_event_about: "step_event c ev \<Longrightarrow> about c ev"
  by (cases ev) auto

lemma seed_all_events:
  "\<exists>evs. trace (world_of (seed_all e p st cs w)) = trace w @ evs \<and>
         list_all (\<lambda>ev. \<exists>c\<in>set cs. about c ev) evs"
proof (induction cs arbitrary: p w)
  case Nil
  show ?case by simp
next
  case (Cons c cs)
  from seed_collection_events [of e p c w]
  obtain evs1 where 1: "trace (world_of (seed_collection e p c w)) =
                          trace w @ Progress p (loading_label c) # evs1"
    and 2: "list_all (step_event c) evs1" by blast
  have 3: "list_all (\<lambda>ev. \<exists>c'\<in>set (c # cs). about c' ev) (Progress p (loading_label c) # evs1)"
    using 2 by (auto simp: list_all_iff dest: step_event_about)
  have "\<exists>evs. trace (world_of (and_then (seed_collection e p c w) (seed_all e (p + st) st cs))) =
                 trace w @ evs \<and> list_all (\<lambda>ev. \<exists>c'\<in>set (c # cs). about c' ev) evs"
  proof (rule and_then_events [where P = "list_all (\<lambda>ev. \<exists>c'\<in>set (c # cs). about c' ev)", OF 1 3])
    fix w3
    from Cons.IH [of "p + st" w3]
    obtain evs2 where "trace (world_of (seed_all e (p + st) st cs w3)) = trace w3 @ evs2"
      and "list_all (\<lambda>ev. \<exists>c\<in>set cs. about c ev) evs2" by blast
    then show "\<exists>evs2. trace (world_of (seed_all e (p + st) st cs w3)) = trace w3 @ evs2 \<and>
        list_all (\<lambda>ev. \<exists>c'\<in>set (c # cs). about c' ev) ((Progress p (loading_label c) # evs1) @ evs2)"
      using 3 by (auto simp: list_all_iff)
  qed
  then show ?case by simp
qed

lemma seed_all_abort:
  assumes f: "fetch e (collection_url c) = Response status b" and nok: "\<not> ok status"
    and others: "\<forall>c'\<in>set pre \<union> set post. collection_url c' \<noteq> collection_url c"
    and tr: "trace (world_of (seed_all e p st (pre @ c # post) w)) = trace w @ evs0"
    and occ: "Fetch (collection_url c) \<in> set evs0"
  shows "\<exists>w' evs. seed_all e p st (pre @ c # post) w =
                    Threw (Error (''Failed to fetch '' @ c @ '': '' @ show_nat status)) w' \<and>
           trace w' = trace w @ evs @
             [Progress (p + length pre * st) (loading_label c), Count c, Fetch (collection_url c)] \<and>
           list_all (\<lambda>ev. \<exists>c'\<in>set pre. about c' ev) evs \<and>
           (\<forall>c'\<in>set pre. Count c' \<in> set evs)"
  using others tr occ
proof (induction pre arbitrary: p w evs0)
  case Nil
  let ?R = "seed_collection e p c w"
  from seed_collection_fetch_not_ok [OF f nok, of p w]
  consider (thrown) w' where
      "?R = Threw (Error (''Failed to fetch '' @ c @ '': '' @ show_nat status)) w'"
      "trace w' = trace w @ [Progress p (loading_label c), Count c, Fetch (collection_url c)]"
    | (quiet) evs where "trace (world_of ?R) = trace w @ Progress p (loading_label c) # evs"
      "list_all (step_event c) evs" "Fetch (collection_url c) \<notin> set evs"
    by blast
  then show ?case
  proof cases
    case thrown
    then show ?thesis by simp
  next
    case quiet
    have False
    proof (cases ?R)
      case (Done w2)
      from seed_all_events [of e "p + st" st post w2]
      obtain evsP where P: "trace (world_of (seed_all e (p + st) st post w2)) = trace w2 @ evsP"
        and aP: "list_all (\<lambda>ev. \<exists>c'\<in>set post. about c' ev) evsP" by blast
      from Done quiet(1) have "trace w2 = trace w @ Progress p (loading_label c) # evs" by simp
      with P Done Nil.prems(2) have "evs0 = Progress p (loading_label c) # evs @ evsP" by simp
      with Nil.prems(3) quiet(3) have "Fetch (collection_url c) \<in> set evsP" by simp
      with aP obtain c' where "c' \<in> set post" "about c' (Fetch (collection_url c))"
        by (auto simp: list_all_iff)
      with Nil.prems(1) show False by auto
    next
      case (Threw err w2)
      with quiet(1) Nil.prems(2) have "evs0 = Progress p (loading_label c) # evs" by simp
      with Nil.prems(3) quiet(3) show False by simp
    next
      case (Pending w2)
      with quiet(1) Nil.prems(2) have "evs0 = Progress p (loading_label c) # evs" by simp
      with Nil.prems(3) quiet(3) show False by simp
    qed
    then show ?thesis ..
  qed
next
  case (Cons c0 pre)
  let ?R = "seed_collection e p c0 w"
  from seed_collection_events [of e p c0 w]
  obtain evs1 where 1: "trace (world_of ?R) = trace w @ Progress p (loading_label c0) # evs1"
    and 2: "list_all (step_event c0) evs1" by blast
  from Cons.prems(1) have ne: "collection_url c0 \<noteq> collection_url c" by simp
  have nf: "Fetch (collection_url c) \<notin> set evs1"
  proof
    assume "Fetch (collection_url c) \<in> set evs1"
    with 2 have "step_event c0 (Fetch (collection_url c))" by (auto simp: list_all_iff)
    with ne show False by simp
  qed
  show ?case
  proof (cases ?R)
    case (Done w2)
    from seed_collection_Done_events [OF Done]
    obtain evs1' where w2: "trace w2 = trace w @ Progress p (loading_label c0) # Count c0 # evs1'"
      and a1: "list_all (step_event c0) evs1'" by blast
    from 1 Done w2 have e1: "evs1 = Count c0 # evs1'" by simp
    from seed_all_events [of e "p + st" st "pre @ c # post" w2]
    obtain evsR where R: "trace (world_of (seed_all e (p + st) st (pre @ c # post) w2)) = trace w2 @ evsR"
      by blast
    with Done w2 Cons.prems(2)
    have "evs0 = Progress p (loading_label c0) # Count c0 # evs1' @ evsR" by simp
    with Cons.prems(3) nf e1 have occR: "Fetch (collection_url c) \<in> set evsR" by auto
    from Cons.prems(1) have "\<forall>c'\<in>set pre \<union> set post. collection_url c' \<noteq> collection_url c"
      by simp
    from Cons.IH [OF this R occR]
    obtain w' evs where t: "seed_all e (p + st) st (pre @ c # post) w2 =
          Threw (Error (''Failed to fetch '' @ c @ '': '' @ show_nat status)) w'"
      and s: "trace w' = trace w2 @ evs @
          [Progress (p + st + length pre * st) (loading_label c), Count c, Fetch (collection_url c)]"
      and a: "list_all (\<lambda>ev. \<exists>c'\<in>set pre. about c' ev) evs"
      and k: "\<forall>c'\<in>set pre. Count c' \<in> set evs" by blast
    let ?evs = "Progress p (loading_label c0) # Count c0 # evs1' @ evs"
    have "seed_all e p st ((c0 # pre) @ c # post) w =
            Threw (Error (''Failed to fetch '' @ c @ '': '' @ show_nat status)) w'"
      using Done t by simp
    moreover have "trace w' = trace w @ ?evs @
        [Progress (p + length (c0 # pre) * st) (loading_label c), Count c, Fetch (collection_url c)]"
      using s w2 by (simp add: add.assoc)
    moreover have "list_all (\<lambda>ev. \<exists>c'\<in>set (c0 # pre). about c' ev) ?evs"
      using a a1 by (auto simp: list_all_iff dest: step_event_about)
    moreover have "\<forall>c'\<in>set (c0 # pre). Count c' \<in> set ?evs"
      using k by auto
    ultimately show ?thesis by blast
  next
    case (Threw err w2)
    with 1 Cons.prems(2) have "evs0 = Progress p (loading_label c0) # evs1" by simp
    with Cons.prems(3) nf show ?thesis by simp
  next
    case (Pending w2)
    with 1 Cons.prems(2) have "evs0 = Progress p (loading_label c0) # evs1" by simp
    with Cons.prems(3) nf show ?thesis by simp
  qed
qed

lemma openDB_shape:
  "(\<exists>err. openDB e w = Threw err (emit OpenDB w)) \<or>
   (\<exists>w1. openDB e w = Done w1 \<and> trace w1 = trace w @ [OpenDB] \<and> db w1)"
  by (simp add: openDB_def Let_def)

lemma set_stat_trace [simp]: "trace (set_stat k v w) = trace w"
  by (simp add: set_stat_def split: option.splits)

lemma hideLoadingOverlay_trace [simp]: "trace (hideLoadingOverlay w) = trace w"
  by (simp add: hideLoadingOverlay_def split: option.splits)

lemma getAllFromStore_trace:
  "\<exists>evs. trace (snd (getAllFromStore e n w)) = trace w @ evs \<and> list_all is_GetAll evs"
  using getAllFromStore_shape [of e n w] by auto

lemma updateStatistics_trace:
  "\<exists>evs. trace (updateStatistics e w) = trace w @ evs \<and> list_all is_GetAll evs"
proof -
  obtain r1 w1 where g1: "getAllFromStore e ''regions'' w = (r1, w1)" by fastforce
  obtain r2 w2 where g2: "getAllFromStore e ''subregions'' w1 = (r2, w2)" by fastforce
  obtain r3 w3 where g3: "getAllFromStore e ''countries'' w2 = (r3, w3)" by fastforce
  obtain r4 w4 where g4: "getAllFromStore e ''states'' w3 = (r4, w4)" by fastforce
  from getAllFromStore_trace [of e "''regions''" w] g1
  obtain evs1 where 1: "trace w1 = trace w @ evs1" "list_all is_GetAll evs1" by auto
  from getAllFromStore_trace [of e "''subregions''" w1] g2
  obtain evs2 where 2: "trace w2 = trace w1 @ evs2" "list_all is_GetAll evs2" by auto
  from getAllFromStore_trace [of e "''countries''" w2] g3
  obtain evs3 where 3: "trace w3 = trace w2 @ evs3" "list_all is_GetAll evs3" by auto
  from getAllFromStore_trace [of e "''states''" w3] g4
  obtain evs4 where 4: "trace w4 = trace w3 @ evs4" "list_all is_GetAll evs4" by auto
  have "trace (updateStatistics e w) \<in>
          {trace w1, trace w2, trace w3, trace w4}"
    by (simp add: updateStatistics_def g1 g2 g3 g4 split: sum.splits)
  with 1 2 3 4 show ?thesis by auto
qed

lemma initializeData_no_reset:
  assumes "url_param_get (location_search w) ''reset'' \<noteq> Some ''true''"
    and "openDB e w = Done w1"
  shows "initializeData e w =
           (case seed_all e 0 25 COLLECTIONS w1 of
              Done w2 \<Rightarrow> Done (hideLoadingOverlay
                                 (updateStatistics e (updateLoadingProgress 100 ''Complete!'' w2)))
            | Threw err w' \<Rightarrow> Done (updateLoadingProgress 0 (''Error: '' @ message err) w')
            | Pending w' \<Rightarrow> Pending w')"
  using assms
  by (cases "seed_all e 0 25 COLLECTIONS w1")
     (simp_all add: initializeData_def COLLECTIONS_def)

lemma initializeData_fetches:
  assumes "Fetch u \<in> set (trace (world_of (initializeData e w)))" and "trace w = []"
  shows "\<exists>w1 evs. url_param_get (location_search w) ''reset'' \<noteq> Some ''true'' \<and>
           openDB e w = Done w1 \<and> trace w1 = [OpenDB] \<and>
           trace (world_of (seed_all e 0 25 COLLECTIONS w1)) = trace w1 @ evs \<and>
           Fetch u \<in> set evs"
proof (cases "url_param_get (location_search w) ''reset'' = Some ''true''")
  case True
  with assms show ?thesis
    by (simp add: initializeData_def deleteDatabase_def)
next
  case False
  from openDB_shape [of e w]
  consider (threw) err where "openDB e w = Threw err (emit OpenDB w)"
    | (opened) w1 where "openDB e w = Done w1" "trace w1 = trace w @ [OpenDB]" "db w1"
    by blast
  then show ?thesis
  proof cases
    case threw
    with assms False show ?thesis by (simp add: initializeData_def)
  next
    case opened
    from seed_all_events [of e 0 25 COLLECTIONS w1]
    obtain evs where evs: "trace (world_of (seed_all e 0 25 COLLECTIONS w1)) = trace w1 @ evs"
      by blast
    from updateStatistics_trace
    obtain g where g: "trace (updateStatistics e
        (updateLoadingProgress 100 ''Complete!'' (world_of (seed_all e 0 25 COLLECTIONS w1)))) =
        trace (updateLoadingProgress 100 ''Complete!'' (world_of (seed_all e 0 25 COLLECTIONS w1))) @ g"
      and gg: "list_all is_GetAll g" by blast
    have ng: "Fetch u \<notin> set g"
      using gg by (auto simp: list_all_iff)
    have "Fetch u \<in> set evs"
      using assms(1) evs g ng opened(2) assms(2)
      unfolding initializeData_no_reset [OF False opened(1)]
      by (cases "seed_all e 0 25 COLLECTIONS w1") auto
    with False opened evs assms(2) show ?thesis by auto
  qed
qed

lemma updateLoadingProgress_status:
  "loadingStatus (page (updateLoadingProgress p s w)) \<in> {None, Some s}"
  by (simp add: updateLoadingProgress_def emit_def Let_def split: option.splits)

lemma other_collection_urls:
  "\<forall>c'\<in>set [''regions'', ''subregions''] \<union> set [''states''].
      collection_url c' \<noteq> collection_url ''countries''"
  by (simp add: collection_url_def)

text \<open>
  Claim C1, as the code has it. When a page load fetches the countries snapshot and the
  response has a non-success status, seeding aborts: the run ends with the status
  message \<open>Error: Failed to fetch countries:\<close> and the status code, which names the
  failing collection; the regions and subregions collections come before countries in
  the fixed order, so their counts have been queried by then; nothing follows the
  failed fetch but the error report, so the states collection is neither counted nor
  fetched, and nothing is inserted into countries or states.
\<close>

theorem countries_fetch_failure_aborts_seeding:
  assumes "Fetch (collection_url ''countries'') \<in> set (trace (world_of (page_load e doc d search)))"
    and "fetch e (collection_url ''countries'') = Response status b" and "\<not> ok status"
  shows "\<exists>w' evs. page_load e doc d search = Done w' \<and>
           trace w' = OpenDB # evs @
              [Progress 50 ''Loading countries...'', Count ''countries'',
               Fetch (collection_url ''countries''),
               Progress 0 (''Error: Failed to fetch countries: '' @ show_nat status)] \<and>
           Count ''regions'' \<in> set evs \<and> Count ''subregions'' \<in> set evs \<and>
           Count ''states'' \<notin> set (trace w') \<and>
           Fetch (collection_url ''states'') \<notin> set (trace w') \<and>
           (\<forall>data. PutAll ''countries'' data \<notin> set (trace w') \<and>
                   PutAll ''states'' data \<notin> set (trace w')) \<and>
           loadingStatus (page w') \<in>
             {None, Some (''Error: Failed to fetch countries: '' @ show_nat status)}"
proof -
  let ?w = "new_session doc d search"
  let ?msg = "''Failed to fetch '' @ ''countries'' @ '': '' @ show_nat status"
  have t0: "trace ?w = []" by (simp add: new_session_def)
  from assms(1) have "Fetch (collection_url ''countries'') \<in> set (trace (world_of (initializeData e ?w)))"
    by (simp add: page_load_def)
  from initializeData_fetches [OF this t0]
  obtain w1 evs0 where nr: "url_param_get (location_search ?w) ''reset'' \<noteq> Some ''true''"
    and op: "openDB e ?w = Done w1" and t1: "trace w1 = [OpenDB]"
    and tr: "trace (world_of (seed_all e 0 25 COLLECTIONS w1)) = trace w1 @ evs0"
    and occ: "Fetch (collection_url ''countries'') \<in> set evs0" by blast
  have cs: "COLLECTIONS = [''regions'', ''subregions''] @ ''countries'' # [''states'']"
    by (simp add: COLLECTIONS_def)
  from seed_all_abort [OF assms(2,3) other_collection_urls tr [unfolded cs] occ]
  obtain w2 evs where thr: "seed_all e 0 25 COLLECTIONS w1 = Threw (Error ?msg) w2"
    and t2: "trace w2 = trace w1 @ evs @
        [Progress 50 (loading_label ''countries''), Count ''countries'',
         Fetch (collection_url ''countries'')]"
    and ab: "list_all (\<lambda>ev. \<exists>c'\<in>set [''regions'', ''subregions'']. about c' ev) evs"
    and cn: "\<forall>c'\<in>set [''regions'', ''subregions'']. Count c' \<in> set evs"
    unfolding cs by auto
  let ?w' = "updateLoadingProgress 0 (''Error: '' @ ?msg) w2"
  have run: "page_load e doc d search = Done ?w'"
    unfolding page_load_def initializeData_no_reset [OF nr op] thr by simp
  have shape: "trace ?w' = OpenDB # evs @
              [Progress 50 ''Loading countries...'', Count ''countries'',
               Fetch (collection_url ''countries''),
               Progress 0 (''Error: Failed to fetch countries: '' @ show_nat status)]"
    using t1 t2 by (simp add: loading_label_def)
  have n1: "Count ''states'' \<notin> set evs"
    using ab by (auto simp: list_all_iff)
  have n2: "Fetch (collection_url ''states'') \<notin> set evs"
    using ab by (auto simp: list_all_iff collection_url_def)
  have n3: "PutAll ''countries'' data \<notin> set evs \<and> PutAll ''states'' data \<notin> set evs" for data
    using ab by (auto simp: list_all_iff)
  have n4: "Fetch (collection_url ''states'') \<noteq> Fetch (collection_url ''countries'')"
    by (simp add: collection_url_def)
  have st: "loadingStatus (page ?w') \<in>
             {None, Some (''Error: Failed to fetch countries: '' @ show_nat status)}"
    using updateLoadingProgress_status [of 0 "''Error: '' @ ?msg" w2] by simp
  from cn have c1: "Count ''regions'' \<in> set evs" and c2: "Count ''subregions'' \<in> set evs"
    by simp_all
  show ?thesis
    apply (rule exI [of _ ?w'], rule exI [of _ evs])
    unfolding shape
    using run c1 c2 n1 n2 n3 n4 st by simp
qed

theorem countries_fetch_failure_aborts_seeding_witness:
  "Fetch (collection_url ''countries'') \<in>
     set (trace (world_of (page_load scenario_D sample_page no_database []))) \<and>
   fetch scenario_D (collection_url ''countries'') = Response 500 (Unparseable ''Unexpected token'') \<and>
   \<not> ok 500 \<and>
   Count ''states'' \<notin> set (trace (world_of (page_load scenario_D sample_page no_database []))) \<and>
   last (trace (world_of (page_load scenario_D sample_page no_database []))) =
     Progress 0 ''Error: Failed to fetch countries: 500''"
proof -
  have h1: "Fetch (collection_url ''countries'') \<in>
     set (trace (world_of (page_load scenario_D sample_page no_database [])))"
    unfolding scenario_D_trace by simp
  have h2: "fetch scenario_D (collection_url ''countries'') =
              Response 500 (Unparseable ''Unexpected token'')"
    by (simp add: scenario_D_def collection_url_def)
  have h3: "\<not> ok 500"
    by (simp add: ok_def)
  have n: "show_nat 500 = ''500''"
    by (simp add: show_nat.simps)
  from countries_fetch_failure_aborts_seeding [OF h1 h2 h3]
  obtain w' evs where "page_load scenario_D sample_page no_database [] = Done w'"
    and "trace w' = OpenDB # evs @
              [Progress 50 ''Loading countries...'', Count ''countries'',
               Fetch (collection_url ''countries''),
               Progress 0 (''Error: Failed to fetch countries: '' @ show_nat 500)]"
    and "Count ''states'' \<notin> set (trace w')"
    by blast
  with h1 h2 h3 n show ?thesis by simp
qed

text \<open>
  Claim C1 as stated fails: in the run of Scenario D, where the countries fetch
  returns status 500, the count of subregions is queried, before the countries step.
\<close>

theorem subregions_counted_before_countries_fail:
  "fetch scenario_D (collection_url ''countries'') = Response 500 (Unparseable ''Unexpected token'') \<and>
   trace (world_of (page_load scenario_D sample_page no_database [])) =
     [OpenDB,
      Progress 0 ''Loading regions...'', Count ''regions'', Fetch (collection_url ''regions''),
      PutAll ''regions'' [asia], GetAll ''regions'',
      Progress 25 ''Loading subregions...'', Count ''subregions'',
      Fetch (collection_url ''subregions''), PutAll ''subregions'' [southern_asia, eastern_asia],
      Progress 50 ''Loading countries...'', Count ''countries'', Fetch (collection_url ''countries''),
      Progress 0 ''Error: Failed to fetch countries: 500'']"
  using scenario_D_trace by (simp add: scenario_D_def collection_url_def)

lemma events_since_append: "trace w' = trace w @ evs \<Longrightarrow> events_since w w' = evs"
  by (simp add: events_since_def)

lemma add_all_distinct:
  "distinct (map item_id data) \<Longrightarrow> item_id ` set data \<inter> item_id ` set recs = {} \<Longrightarrow>
     add_all data recs = Some (recs @ data)"
proof (induction data arbitrary: recs)
  case Nil
  show ?case by simp
next
  case (Cons it its)
  from Cons.prems have "item_id it \<notin> item_id ` set recs" by auto
  moreover from Cons.prems have "item_id ` set its \<inter> item_id ` set (recs @ [it]) = {}"
    by auto
  moreover from Cons.prems have "distinct (map item_id its)" by simp
  ultimately show ?case using Cons.IH [of "recs @ [it]"] by simp
qed

lemma set_records_idb:
  "objectStores (idb w) c = Some os \<Longrightarrow>
     idb (set_records c recs w) =
       (idb w)\<lparr>objectStores := (objectStores (idb w))(c \<mapsto> os\<lparr>records := recs\<rparr>)\<rparr>"
  by (simp add: set_records_def)

lemma after_step_Done:
  assumes "db w" and "objectStores (idb w) c = Some os"
  shows "\<exists>w' g. (if c = ''regions''
                 then (case getAllFromStore e ''regions'' w of
                         (Inl err, w4) \<Rightarrow> Threw err w4
                       | (Inr regions, w4) \<Rightarrow> Done (renderRegions regions w4))
                 else Done w) = Done w' \<and>
           idb w' = idb w \<and> trace w' = trace w @ g \<and> list_all is_GetAll g"
  using assms by (auto simp: getAllFromStore_def)

lemma seed_collection_fills_empty:
  assumes "db w" and "objectStores (idb w) c = Some os" and "records os = []"
    and "fetch e (collection_url c) = Response status (Parsed data)" and "ok status"
    and "distinct (map item_id data)"
  shows "\<exists>w1 g. seed_collection e p c w = Done w1 \<and>
           idb w1 = (idb w)\<lparr>objectStores := (objectStores (idb w))(c \<mapsto> os\<lparr>records := data\<rparr>)\<rparr> \<and>
           trace w1 = trace w @ [Progress p (loading_label c), Count c, Fetch (collection_url c),
                                 PutAll c data] @ g \<and>
           list_all is_GetAll g"
proof -
  let ?w2 = "emit (Count c) (updateLoadingProgress p (loading_label c) w)"
  let ?w3 = "set_records c data (emit (PutAll c data) (emit (Fetch (collection_url c)) ?w2))"
  have a: "add_all data (records os) = Some data"
    using add_all_distinct [OF assms(6), of "[]"] assms(3) by simp
  have fs: "fetch_and_store e c ?w2 = Done ?w3"
    using assms(2,4,5) a by (simp add: fetch_and_store_def Let_def)
  have i3: "idb ?w3 = (idb w)\<lparr>objectStores := (objectStores (idb w))(c \<mapsto> os\<lparr>records := data\<rparr>)\<rparr>"
    using assms(2) by (simp add: set_records_idb)
  have d3: "db ?w3" using assms(1) by simp
  have s3: "objectStores (idb ?w3) c = Some (os\<lparr>records := data\<rparr>)"
    unfolding i3 by simp
  from after_step_Done [OF d3 s3, of e]
  obtain w' g where k: "(if c = ''regions''
                 then (case getAllFromStore e ''regions'' ?w3 of
                         (Inl err, w4) \<Rightarrow> Threw err w4
                       | (Inr regions, w4) \<Rightarrow> Done (renderRegions regions w4))
                 else Done ?w3) = Done w'"
    and i: "idb w' = idb ?w3" and t: "trace w' = trace ?w3 @ g" and g: "list_all is_GetAll g"
    by blast
  have "seed_collection e p c w = Done w'"
    unfolding seed_collection_present [OF assms(1,2)] using assms(3) fs k by simp
  moreover have "trace w' = trace w @ [Progress p (loading_label c), Count c,
                                        Fetch (collection_url c), PutAll c data] @ g"
    using t by simp
  ultimately show ?thesis using i i3 g by auto
qed

lemma seed_collection_skips_nonempty:
  assumes "db w" and "objectStores (idb w) c = Some os" and "records os \<noteq> []"
  shows "\<exists>w1 g. seed_collection e p c w = Done w1 \<and> idb w1 = idb w \<and>
           trace w1 = trace w @ [Progress p (loading_label c), Count c] @ g \<and>
           list_all is_GetAll g"
proof -
  let ?w2 = "emit (Count c) (updateLoadingProgress p (loading_label c) w)"
  have d2: "db ?w2" using assms(1) by simp
  have s2: "objectStores (idb ?w2) c = Some os" using assms(2) by simp
  from after_step_Done [OF d2 s2, of e]
  obtain w' g where k: "(if c = ''regions''
                 then (case getAllFromStore e ''regions'' ?w2 of
                         (Inl err, w4) \<Rightarrow> Threw err w4
                       | (Inr regions, w4) \<Rightarrow> Done (renderRegions regions w4))
                 else Done ?w2) = Done w'"
    and i: "idb w' = idb ?w2" and t: "trace w' = trace ?w2 @ g" and g: "list_all is_GetAll g"
    by blast
  have "seed_collection e p c w = Done w'"
    unfolding seed_collection_present [OF assms(1,2)] using assms(3) k by simp
  moreover have "trace w' = trace w @ [Progress p (loading_label c), Count c] @ g"
    using t by simp
  ultimately show ?thesis using i g by auto
qed

lemma no_Fetch_in_GetAll: "list_all is_GetAll g \<Longrightarrow> filter is_Fetch g = [] \<and> filter is_PutAll g = []"
  by (induction g) (auto elim: is_GetAll.elims)

text \<open>
  Claim C4, as the code has it. For a collection that is empty, whose snapshot is
  fetched with success and is a non-empty array of records with distinct identifiers,
  the seeding step makes one fetch and one batch insert; every later seeding step on
  the store it leaves behind ends after the count check, with no fetch and no insert,
  and leaves the store as it is.
\<close>

theorem seed_once_for_nonempty_snapshot:
  assumes "db w" and "objectStores (idb w) c = Some os" and "records os = []"
    and "fetch e1 (collection_url c) = Response status (Parsed data)" and "ok status"
    and "data \<noteq> []" and "distinct (map item_id data)"
  shows "\<exists>w1. seed_collection e1 p1 c w = Done w1 \<and>
           filter is_Fetch (events_since w w1) = [Fetch (collection_url c)] \<and>
           filter is_PutAll (events_since w w1) = [PutAll c data] \<and>
           (\<forall>e2 p2 w2. db w2 \<and> idb w2 = idb w1 \<longrightarrow>
              (\<exists>w3. seed_collection e2 p2 c w2 = Done w3 \<and> idb w3 = idb w2 \<and>
                    Count c \<in> set (events_since w2 w3) \<and>
                    filter is_Fetch (events_since w2 w3) = [] \<and>
                    filter is_PutAll (events_since w2 w3) = []))"
proof -
  from seed_collection_fills_empty [OF assms(1-5,7), of p1]
  obtain w1 g where r1: "seed_collection e1 p1 c w = Done w1"
    and i1: "idb w1 = (idb w)\<lparr>objectStores := (objectStores (idb w))(c \<mapsto> os\<lparr>records := data\<rparr>)\<rparr>"
    and t1: "trace w1 = trace w @ [Progress p1 (loading_label c), Count c, Fetch (collection_url c),
                                   PutAll c data] @ g"
    and g1: "list_all is_GetAll g" by blast
  have ev1: "events_since w w1 = [Progress p1 (loading_label c), Count c, Fetch (collection_url c),
                                  PutAll c data] @ g"
    by (rule events_since_append [OF t1])
  have second: "\<exists>w3. seed_collection e2 p2 c w2 = Done w3 \<and> idb w3 = idb w2 \<and>
                    Count c \<in> set (events_since w2 w3) \<and>
                    filter is_Fetch (events_since w2 w3) = [] \<and>
                    filter is_PutAll (events_since w2 w3) = []"
    if "db w2 \<and> idb w2 = idb w1" for e2 p2 w2
  proof -
    from that i1 have s: "objectStores (idb w2) c = Some (os\<lparr>records := data\<rparr>)" by simp
    have ne: "records (os\<lparr>records := data\<rparr>) \<noteq> []" using assms(6) by simp
    from that have d: "db w2" by simp
    from seed_collection_skips_nonempty [OF d s ne, of e2 p2]
    obtain w3 g' where r: "seed_collection e2 p2 c w2 = Done w3" and i: "idb w3 = idb w2"
      and t: "trace w3 = trace w2 @ [Progress p2 (loading_label c), Count c] @ g'"
      and g: "list_all is_GetAll g'" by blast
    have "events_since w2 w3 = [Progress p2 (loading_label c), Count c] @ g'"
      by (rule events_since_append [OF t])
    with r i no_Fetch_in_GetAll [OF g] show ?thesis by simp
  qed
  from r1 ev1 no_Fetch_in_GetAll [OF g1] second show ?thesis by simp
qed

lemma opened_fresh_facts:
  "db opened_fresh"
  "objectStores (idb opened_fresh) ''regions'' = Some \<lparr>indexNames = [], records = []\<rparr>"
  "trace opened_fresh = [OpenDB]"
  by (simp_all add: opened_fresh_def openDB_def new_session_def no_database_def DB_VERSION_def
      emit_def Let_def onupgradeneeded_def COLLECTIONS_def upgrade_store_def indexes_for_def)

theorem seed_once_for_nonempty_snapshot_witness:
  "db opened_fresh \<and>
   objectStores (idb opened_fresh) ''regions'' = Some \<lparr>indexNames = [], records = []\<rparr> \<and>
   fetch all_online (collection_url ''regions'') = Response 200 (Parsed [asia]) \<and> ok 200 \<and>
   filter is_Fetch (events_since opened_fresh
      (world_of (seed_collection all_online 0 ''regions'' opened_fresh))) =
     [Fetch (collection_url ''regions'')] \<and>
   filter is_PutAll (events_since opened_fresh
      (world_of (seed_collection all_online 0 ''regions'' opened_fresh))) =
     [PutAll ''regions'' [asia]] \<and>
   filter is_Fetch
     (events_since
        (opened_fresh\<lparr>idb := idb (world_of (seed_collection all_online 0 ''regions'' opened_fresh))\<rparr>)
        (world_of (seed_collection all_online 0 ''regions''
           (opened_fresh\<lparr>idb := idb (world_of (seed_collection all_online 0 ''regions'' opened_fresh))\<rparr>))))
     = []"
proof -
  note h1 = opened_fresh_facts(1) and h2 = opened_fresh_facts(2)
  have h3: "records \<lparr>indexNames = [], records = []\<rparr> = []" by simp
  have h4: "fetch all_online (collection_url ''regions'') = Response 200 (Parsed [asia])"
    by (simp add: all_online_def)
  have h5: "ok 200" by (simp add: ok_def)
  have h6: "[asia] \<noteq> []" by simp
  have h7: "distinct (map item_id [asia])" by simp
  from seed_once_for_nonempty_snapshot [OF h1 h2 h3 h4 h5 h6 h7, of 0]
  obtain w1 where r: "seed_collection all_online 0 ''regions'' opened_fresh = Done w1"
    and f: "filter is_Fetch (events_since opened_fresh w1) = [Fetch (collection_url ''regions'')]"
    and p: "filter is_PutAll (events_since opened_fresh w1) = [PutAll ''regions'' [asia]]"
    and again: "\<forall>e2 p2 w2. db w2 \<and> idb w2 = idb w1 \<longrightarrow>
              (\<exists>w3. seed_collection e2 p2 ''regions'' w2 = Done w3 \<and> idb w3 = idb w2 \<and>
                    Count ''regions'' \<in> set (events_since w2 w3) \<and>
                    filter is_Fetch (events_since w2 w3) = [] \<and>
                    filter is_PutAll (events_since w2 w3) = [])"
    by blast
  have "db (opened_fresh\<lparr>idb := idb w1\<rparr>) \<and> idb (opened_fresh\<lparr>idb := idb w1\<rparr>) = idb w1"
    using h1 by simp
  with again obtain w3 where
    "seed_collection all_online 0 ''regions'' (opened_fresh\<lparr>idb := idb w1\<rparr>) = Done w3"
    "filter is_Fetch (events_since (opened_fresh\<lparr>idb := idb w1\<rparr>) w3) = []"
    by blast
  with r f p h1 h2 h4 h5 show ?thesis by simp
qed

lemmas step_defs =
  emit_def COLLECTIONS_def seed_collection_def updateLoadingProgress_def fetch_and_store_def
  getAllFromStore_def renderRegions_def set_tbody_def updateCount_def set_records_def
  dom_exception_def Let_def ok_def sample_page_def collection_url_def CONTRIBUTIONS_BASE_def
  opened_fresh_def openDB_def new_session_def no_database_def DB_VERSION_def
  onupgradeneeded_def upgrade_store_def indexes_for_def

text \<open>
  Claim C4 as stated fails: when the snapshots are empty arrays, the collections are
  still empty after the first seeding run, and the second run fetches and inserts
  every one of them again.
\<close>

theorem empty_snapshot_is_fetched_again:
  "filter is_Fetch (trace (world_of (seed_all empty_snapshots 0 25 COLLECTIONS opened_fresh))) =
     [Fetch (collection_url ''regions''), Fetch (collection_url ''subregions''),
      Fetch (collection_url ''countries''), Fetch (collection_url ''states'')] \<and>
   filter is_Fetch
     (trace (world_of (seed_all empty_snapshots 0 25 COLLECTIONS
        (opened_fresh\<lparr>idb := idb (world_of (seed_all empty_snapshots 0 25 COLLECTIONS opened_fresh))\<rparr>)))) =
     [Fetch (collection_url ''regions''), Fetch (collection_url ''subregions''),
      Fetch (collection_url ''countries''), Fetch (collection_url ''states'')] \<and>
   filter is_PutAll
     (trace (world_of (seed_all empty_snapshots 0 25 COLLECTIONS
        (opened_fresh\<lparr>idb := idb (world_of (seed_all empty_snapshots 0 25 COLLECTIONS opened_fresh))\<rparr>)))) =
     [PutAll ''regions'' [], PutAll ''subregions'' [], PutAll ''countries'' [], PutAll ''states'' []]"
  by (simp add: step_defs empty_snapshots_def)

text \<open>
  Claim C3, on the code. The regions snapshot holds two records with the same
  identifier: the second \<open>add\<close> collides, the transaction aborts and the store stays
  empty, but \<open>initializeData\<close> waits for a completion that never comes: the page load
  never settles, and the status still reads \<open>Loading regions...\<close>. No error is shown.
\<close>

theorem duplicate_key_batch_never_settles:
  "page_load duplicate_regions sample_page no_database [] =
     Pending (world_of (page_load duplicate_regions sample_page no_database [])) \<and>
   trace (world_of (page_load duplicate_regions sample_page no_database [])) =
     [OpenDB, Progress 0 ''Loading regions...'', Count ''regions'',
      Fetch (collection_url ''regions''), PutAll ''regions'' [asia, asia_again]] \<and>
   loadingStatus (page (world_of (page_load duplicate_regions sample_page no_database []))) =
     Some ''Loading regions...'' \<and>
   map_option records
     (objectStores (idb (world_of (page_load duplicate_regions sample_page no_database []))) ''regions'') =
     Some []"
  by (simp add: run_defs duplicate_regions_def asia_def asia_again_def)

lemma filter_Progress_step_events: "list_all (step_event c) evs \<Longrightarrow> filter is_Progress evs = []"
  by (induction evs) (auto elim: step_event.elims)

lemma seed_all_Done_progress:
  "seed_all e p st cs w = Done w' \<Longrightarrow>
     \<exists>evs. trace w' = trace w @ evs \<and> filter is_Progress evs = progress_reports p st cs"
proof (induction cs arbitrary: p w)
  case Nil
  then show ?case by simp
next
  case (Cons c cs)
  show ?case
  proof (cases "seed_collection e p c w")
    case (Done w2)
    from seed_collection_events [of e p c w] Done
    obtain evs1 where 1: "trace w2 = trace w @ Progress p (loading_label c) # evs1"
      and 2: "list_all (step_event c) evs1" by auto
    from Cons.prems Done have "seed_all e (p + st) st cs w2 = Done w'" by simp
    from Cons.IH [OF this]
    obtain evs2 where 3: "trace w' = trace w2 @ evs2"
      and 4: "filter is_Progress evs2 = progress_reports (p + st) st cs" by blast
    have "trace w' = trace w @ (Progress p (loading_label c) # evs1 @ evs2)"
      using 1 3 by simp
    moreover have "filter is_Progress (Progress p (loading_label c) # evs1 @ evs2) =
                     progress_reports p st (c # cs)"
      using 4 filter_Progress_step_events [OF 2] by simp
    ultimately show ?thesis by blast
  next
    case (Threw err w2)
    with Cons.prems show ?thesis by simp
  next
    case (Pending w2)
    with Cons.prems show ?thesis by simp
  qed
qed

lemma seeded_loop:
  "seed_all offline 0 25 COLLECTIONS browsing = Done (world_of (seed_all offline 0 25 COLLECTIONS browsing)) \<and>
   trace (world_of (seed_all offline 0 25 COLLECTIONS browsing)) =
     [Progress 0 ''Loading regions...'', Count ''regions'', GetAll ''regions'',
      Progress 25 ''Loading subregions...'', Count ''subregions'',
      Progress 50 ''Loading countries...'', Count ''countries'',
      Progress 75 ''Loading states...'', Count ''states'']"
  by (simp add: step_defs browsing_def seeded_def)

lemma getAllFromStore_ok:
  "db w \<Longrightarrow> objectStores (idb w) n = Some os \<Longrightarrow>
     getAllFromStore e n w = (Inr (sort_key item_id (records os)), emit (GetAll n) w)"
  by (simp add: getAllFromStore_def)

lemma updateStatistics_ok:
  assumes "db w" and "objectStores (idb w) ''regions'' = Some r"
    and "objectStores (idb w) ''subregions'' = Some s"
    and "objectStores (idb w) ''countries'' = Some c"
    and "objectStores (idb w) ''states'' = Some t"
  shows "trace (updateStatistics e w) =
           trace w @ [GetAll ''regions'', GetAll ''subregions'', GetAll ''countries'', GetAll ''states'']"
proof -
  let ?w1 = "emit (GetAll ''regions'') w"
  let ?w2 = "emit (GetAll ''subregions'') ?w1"
  let ?w3 = "emit (GetAll ''countries'') ?w2"
  let ?w4 = "emit (GetAll ''states'') ?w3"
  have 1: "getAllFromStore e ''regions'' w = (Inr (sort_key item_id (records r)), ?w1)"
    using assms by (intro getAllFromStore_ok) simp_all
  have 2: "getAllFromStore e ''subregions'' ?w1 = (Inr (sort_key item_id (records s)), ?w2)"
    using assms by (intro getAllFromStore_ok) simp_all
  have 3: "getAllFromStore e ''countries'' ?w2 = (Inr (sort_key item_id (records c)), ?w3)"
    using assms by (intro getAllFromStore_ok) simp_all
  have 4: "getAllFromStore e ''states'' ?w3 = (Inr (sort_key item_id (records t)), ?w4)"
    using assms by (intro getAllFromStore_ok) simp_all
  show ?thesis
    by (simp add: updateStatistics_def 1 2 3 4)
qed

lemma seeded_page_load_loop:
  "seed_all offline 0 25 COLLECTIONS ((emit OpenDB (new_session sample_page seeded []))\<lparr>db := True\<rparr>) =
     Done (world_of (seed_all offline 0 25 COLLECTIONS
                       ((emit OpenDB (new_session sample_page seeded []))\<lparr>db := True\<rparr>))) \<and>
   trace (world_of (seed_all offline 0 25 COLLECTIONS
                      ((emit OpenDB (new_session sample_page seeded []))\<lparr>db := True\<rparr>))) =
     [OpenDB,
      Progress 0 ''Loading regions...'', Count ''regions'', GetAll ''regions'',
      Progress 25 ''Loading subregions...'', Count ''subregions'',
      Progress 50 ''Loading countries...'', Count ''countries'',
      Progress 75 ''Loading states...'', Count ''states''] \<and>
   db (world_of (seed_all offline 0 25 COLLECTIONS
                   ((emit OpenDB (new_session sample_page seeded []))\<lparr>db := True\<rparr>))) \<and>
   idb (world_of (seed_all offline 0 25 COLLECTIONS
                   ((emit OpenDB (new_session sample_page seeded []))\<lparr>db := True\<rparr>))) = seeded"
  by (simp add: step_defs seeded_def)

text \<open>
  Claim C5 as stated fails: on a page load that finds all four collections present,
  the report naming a collection precedes its count, and what follows the last count is
  the report \<open>Complete!\<close>, which names no collection.
\<close>

theorem no_report_after_a_step_settles:
  "trace (world_of (page_load offline sample_page seeded [])) =
     [OpenDB,
      Progress 0 ''Loading regions...'', Count ''regions'', GetAll ''regions'',
      Progress 25 ''Loading subregions...'', Count ''subregions'',
      Progress 50 ''Loading countries...'', Count ''countries'',
      Progress 75 ''Loading states...'', Count ''states'',
      Progress 100 ''Complete!'',
      GetAll ''regions'', GetAll ''subregions'', GetAll ''countries'', GetAll ''states'']"
proof -
  let ?w = "new_session sample_page seeded []"
  let ?W = "(emit OpenDB ?w)\<lparr>db := True\<rparr>"
  let ?w2 = "world_of (seed_all offline 0 25 COLLECTIONS ?W)"
  have nr: "url_param_get (location_search ?w) ''reset'' \<noteq> Some ''true''"
    by (simp add: new_session_def url_param_get_def)
  have op: "openDB offline ?w = Done ?W"
    by (simp add: openDB_def new_session_def seeded_def DB_VERSION_def Let_def)
  note l = seeded_page_load_loop
  from l have sd: "seed_all offline 0 25 COLLECTIONS ?W = Done ?w2" by blast
  let ?w3 = "updateLoadingProgress 100 ''Complete!'' ?w2"
  have d3: "db ?w3" using l by simp
  have i3: "idb ?w3 = seeded" using l by simp
  have st: "trace (updateStatistics offline ?w3) =
              trace ?w3 @ [GetAll ''regions'', GetAll ''subregions'', GetAll ''countries'', GetAll ''states'']"
  proof (rule updateStatistics_ok [OF d3])
    show "objectStores (idb ?w3) ''regions'' = Some \<lparr>indexNames = [], records = [asia]\<rparr>"
      unfolding i3 by (simp add: seeded_def)
    show "objectStores (idb ?w3) ''subregions'' =
            Some \<lparr>indexNames = [''region_id''], records = [southern_asia, eastern_asia]\<rparr>"
      unfolding i3 by (simp add: seeded_def)
    show "objectStores (idb ?w3) ''countries'' =
            Some \<lparr>indexNames = [''subregion_id'', ''iso2''], records = [india]\<rparr>"
      unfolding i3 by (simp add: seeded_def)
    show "objectStores (idb ?w3) ''states'' =
            Some \<lparr>indexNames = [''country_id'', ''country_code''], records = [maharashtra]\<rparr>"
      unfolding i3 by (simp add: seeded_def)
  qed
  have "page_load offline sample_page seeded [] =
          Done (hideLoadingOverlay (updateStatistics offline ?w3))"
    unfolding page_load_def initializeData_no_reset [OF nr op] by (subst sd) simp
  then show ?thesis
    using st l by simp
qed

section \<open>Progress reports of a whole run: proofs\<close>

lemma filter_Progress_GetAll: "list_all is_GetAll g \<Longrightarrow> filter is_Progress g = []"
  by (induction g) (auto elim: is_GetAll.elims)

lemma initializeData_completed_progress:
  assumes nr: "url_param_get (location_search w) ''reset'' \<noteq> Some ''true''"
    and op: "openDB e w = Done w1"
    and sd: "seed_all e 0 25 COLLECTIONS w1 = Done w2"
  shows "filter is_Progress (events_since w (world_of (initializeData e w))) =
           progress_reports 0 25 COLLECTIONS @ [Progress 100 ''Complete!'']"
proof -
  from openDB_shape [of e w] op have t1: "trace w1 = trace w @ [OpenDB]" by auto
  from seed_all_Done_progress [OF sd]
  obtain evs where t2: "trace w2 = trace w1 @ evs"
    and f: "filter is_Progress evs = progress_reports 0 25 COLLECTIONS" by blast
  let ?w3 = "updateLoadingProgress 100 ''Complete!'' w2"
  from updateStatistics_trace [of e ?w3]
  obtain g where t4: "trace (updateStatistics e ?w3) = trace ?w3 @ g"
    and gg: "list_all is_GetAll g" by blast
  have "initializeData e w = Done (hideLoadingOverlay (updateStatistics e ?w3))"
    unfolding initializeData_no_reset [OF nr op] sd by simp
  then have "trace (world_of (initializeData e w)) =
               trace w @ (OpenDB # evs @ Progress 100 ''Complete!'' # g)"
    using t1 t2 t4 by simp
  from events_since_append [OF this] f filter_Progress_GetAll [OF gg]
  show ?thesis by simp
qed

text \<open>
  Claim C5, as the code has it. The progress report that names a collection is the
  first thing its step does, before the count is queried and so whether the collection
  is then fetched or found present, and the step itself reports nothing more. In a run
  that goes through all four collections the reports are 0, 25, 50 and 75 percent with
  the names in the fixed order; so what is reported once a collection has settled is the
  percentage reached, under the name of the next collection, and after the last one 100
  percent under \<open>Complete!\<close>.
\<close>

theorem progress_reported_before_each_step:
  "(\<exists>rest. trace (world_of (seed_collection e p c w)) =
             trace w @ Progress p (''Loading '' @ c @ ''...'') # rest \<and>
           filter is_Progress rest = []) \<and>
   (seed_all e 0 25 COLLECTIONS w = Done w' \<longrightarrow>
      filter is_Progress (events_since w w') =
        [Progress 0 ''Loading regions...'', Progress 25 ''Loading subregions...'',
         Progress 50 ''Loading countries...'', Progress 75 ''Loading states...'']) \<and>
   (url_param_get (location_search w) ''reset'' \<noteq> Some ''true'' \<and>
    openDB e w = Done w1 \<and> seed_all e 0 25 COLLECTIONS w1 = Done w2 \<longrightarrow>
      filter is_Progress (events_since w (world_of (initializeData e w))) =
        [Progress 0 ''Loading regions...'', Progress 25 ''Loading subregions...'',
         Progress 50 ''Loading countries...'', Progress 75 ''Loading states...'',
         Progress 100 ''Complete!''])"
proof (intro conjI impI)
  from seed_collection_events [of e p c w]
  obtain evs where "trace (world_of (seed_collection e p c w)) =
                      trace w @ Progress p (loading_label c) # evs"
    and "list_all (step_event c) evs" by blast
  then show "\<exists>rest. trace (world_of (seed_collection e p c w)) =
             trace w @ Progress p (''Loading '' @ c @ ''...'') # rest \<and>
           filter is_Progress rest = []"
    using filter_Progress_step_events [of c evs] by (auto simp: loading_label_def)
next
  assume "seed_all e 0 25 COLLECTIONS w = Done w'"
  from seed_all_Done_progress [OF this]
  obtain evs where t: "trace w' = trace w @ evs"
    and f: "filter is_Progress evs = progress_reports 0 25 COLLECTIONS" by blast
  from events_since_append [OF t] f
  show "filter is_Progress (events_since w w') =
      [Progress 0 ''Loading regions...'', Progress 25 ''Loading subregions...'',
       Progress 50 ''Loading countries...'', Progress 75 ''Loading states...'']"
    by (simp add: COLLECTIONS_def loading_label_def)
next
  assume a: "url_param_get (location_search w) ''reset'' \<noteq> Some ''true'' \<and>
    openDB e w = Done w1 \<and> seed_all e 0 25 COLLECTIONS w1 = Done w2"
  then have nr: "url_param_get (location_search w) ''reset'' \<noteq> Some ''true''"
    and op: "openDB e w = Done w1" and sd: "seed_all e 0 25 COLLECTIONS w1 = Done w2"
    by simp_all
  have "filter is_Progress (events_since w (world_of (initializeData e w))) =
           progress_reports 0 25 COLLECTIONS @ [Progress 100 ''Complete!'']"
    by (rule initializeData_completed_progress [OF nr op sd])
  then show "filter is_Progress (events_since w (world_of (initializeData e w))) =
        [Progress 0 ''Loading regions...'', Progress 25 ''Loading subregions...'',
         Progress 50 ''Loading countries...'', Progress 75 ''Loading states...'',
         Progress 100 ''Complete!'']"
    by (simp add: COLLECTIONS_def loading_label_def)
qed

theorem progress_reported_before_each_step_witness:
  "seed_all offline 0 25 COLLECTIONS browsing =
     Done (world_of (seed_all offline 0 25 COLLECTIONS browsing)) \<and>
   trace (world_of (seed_collection offline 25 ''subregions'' browsing)) =
     [Progress 25 ''Loading subregions...'', Count ''subregions''] \<and>
   filter is_Progress (events_since browsing (world_of (seed_all offline 0 25 COLLECTIONS browsing))) =
     [Progress 0 ''Loading regions...'', Progress 25 ''Loading subregions...'',
      Progress 50 ''Loading countries...'', Progress 75 ''Loading states...''] \<and>
   url_param_get (location_search (new_session sample_page seeded [])) ''reset'' \<noteq> Some ''true'' \<and>
   filter is_Progress
     (events_since (new_session sample_page seeded [])
        (world_of (initializeData offline (new_session sample_page seeded [])))) =
     [Progress 0 ''Loading regions...'', Progress 25 ''Loading subregions...'',
      Progress 50 ''Loading countries...'', Progress 75 ''Loading states...'',
      Progress 100 ''Complete!'']"
proof -
  let ?w = "new_session sample_page seeded []"
  let ?W = "(emit OpenDB ?w)\<lparr>db := True\<rparr>"
  let ?w2 = "world_of (seed_all offline 0 25 COLLECTIONS ?W)"
  have d: "seed_all offline 0 25 COLLECTIONS browsing =
             Done (world_of (seed_all offline 0 25 COLLECTIONS browsing))"
    using seeded_loop by blast
  have s: "trace (world_of (seed_collection offline 25 ''subregions'' browsing)) =
     [Progress 25 ''Loading subregions...'', Count ''subregions'']"
    by (simp add: step_defs browsing_def seeded_def)
  have nr: "url_param_get (location_search ?w) ''reset'' \<noteq> Some ''true''"
    by (simp add: new_session_def url_param_get_def)
  have op: "openDB offline ?w = Done ?W"
    by (simp add: openDB_def new_session_def seeded_def DB_VERSION_def Let_def)
  from seeded_page_load_loop have sd: "seed_all offline 0 25 COLLECTIONS ?W = Done ?w2" by blast
  note a = progress_reported_before_each_step
    [of offline 25 "''subregions''" browsing "world_of (seed_all offline 0 25 COLLECTIONS browsing)"]
  note b = progress_reported_before_each_step [of offline 0 "''regions''" ?w _ ?W ?w2]
  from a d have 2: "filter is_Progress
      (events_since browsing (world_of (seed_all offline 0 25 COLLECTIONS browsing))) =
     [Progress 0 ''Loading regions...'', Progress 25 ''Loading subregions...'',
      Progress 50 ''Loading countries...'', Progress 75 ''Loading states...'']"
    by blast
  from b nr op sd have 3: "filter is_Progress
     (events_since ?w (world_of (initializeData offline ?w))) =
     [Progress 0 ''Loading regions...'', Progress 25 ''Loading subregions...'',
      Progress 50 ''Loading countries...'', Progress 75 ''Loading states...'',
      Progress 100 ''Complete!'']"
    by blast
  from d s 2 nr 3 show ?thesis by blast
qed

section \<open>The city overlay across a session: proofs\<close>

lemma citiesCache_clearColumn [simp]: "citiesCache (clearColumn t w) = citiesCache w"
  by (simp add: clearColumn_def split: option.splits)

lemma citiesCache_filterSubregions [simp]:
  "citiesCache (filterSubregions e regionId w) = citiesCache w"
proof (cases regionId)
  case (Num n)
  let ?w1 = "w\<lparr>currentSelections := (currentSelections w)\<lparr>region := Some n\<rparr>\<rparr>"
  have "citiesCache (snd (getFromIndex e ''subregions'' ''region_id'' n ?w1)) = citiesCache w"
    by (simp add: getFromIndex_frame)
  then show ?thesis
    using Num
    by (cases "getFromIndex e ''subregions'' ''region_id'' n ?w1")
       (auto simp: filterSubregions_def Let_def renderSubregions_def split: sum.splits)
next
  case (Str s)
  then show ?thesis by (simp add: filterSubregions_def)
qed

lemma citiesCache_filterCountries [simp]:
  "citiesCache (filterCountries e n w) = citiesCache w"
proof -
  let ?w1 = "w\<lparr>currentSelections := (currentSelections w)\<lparr>subregion := Some n\<rparr>\<rparr>"
  have "citiesCache (snd (getFromIndex e ''countries'' ''subregion_id'' n ?w1)) = citiesCache w"
    by (simp add: getFromIndex_frame)
  then show ?thesis
    by (cases "getFromIndex e ''countries'' ''subregion_id'' n ?w1")
       (auto simp: filterCountries_def Let_def renderCountries_def split: sum.splits)
qed

lemma citiesCache_filterStates [simp]:
  "citiesCache (filterStates e n code w) = citiesCache w"
proof -
  let ?w1 = "w\<lparr>currentSelections := (currentSelections w)\<lparr>country := Some (n, code)\<rparr>\<rparr>"
  have "citiesCache (snd (getFromIndex e ''states'' ''country_id'' n ?w1)) = citiesCache w"
    by (simp add: getFromIndex_frame)
  then show ?thesis
    by (cases "getFromIndex e ''states'' ''country_id'' n ?w1")
       (auto simp: filterStates_def Let_def renderStates_def split: sum.splits)
qed

lemma perform_keeps_entry:
  "citiesCache w c = Some arr \<Longrightarrow> citiesCache (perform e a w) c = Some arr"
  by (cases a) (simp_all add: filterCities_keeps_entry)

lemma perform_all_keeps_entry:
  "citiesCache w c = Some arr \<Longrightarrow> citiesCache (perform_all acts w) c = Some arr"
  by (induction acts arbitrary: w) (auto simp: perform_keeps_entry)

text \<open>
  Claim C7. When the first \<open>citiesFor\<close> call for a country code succeeds, it has made
  one fetch and left the array in the overlay; every later call with that code, after
  any number of other drill-downs, answers from that array and leaves the
  world as it is, so it fetches nothing. Two successive calls make one fetch in total.
\<close>

theorem overlay_idempotence:
  assumes "citiesCache w code = None" and "citiesFor e1 s1 code w = (Inr cs1, w1)"
  shows "trace w1 = trace w @ [Fetch (cities_url code)] \<and>
         (\<exists>arr. citiesCache w1 code = Some arr \<and>
            (\<forall>acts e2 s2.
               citiesFor e2 s2 code (perform_all acts w1) =
                 (Inr (cities_of_state e2 s2 arr), perform_all acts w1))) \<and>
         (\<forall>e2 s2. length (filter is_Fetch (trace (snd (citiesFor e2 s2 code w1)))) =
                     length (filter is_Fetch (trace w)) + 1)"
proof -
  from citiesFor_first_success [OF assms]
  obtain arr where arr: "citiesCache w1 code = Some arr"
    and tr: "trace w1 = trace w @ [Fetch (cities_url code)]" by blast
  have later: "citiesFor e2 s2 code (perform_all acts w1) =
                 (Inr (cities_of_state e2 s2 arr), perform_all acts w1)" for acts e2 s2
    by (rule citiesFor_hit [OF perform_all_keeps_entry [OF arr]])
  have "length (filter is_Fetch (trace (snd (citiesFor e2 s2 code w1)))) =
          length (filter is_Fetch (trace w)) + 1" for e2 s2
    using later [of e2 s2 "[]"] tr by simp
  with arr tr later show ?thesis by blast
qed

theorem overlay_idempotence_witness:
  "citiesCache (new_session sample_page no_database []) ''IN'' = None \<and>
   fst (citiesFor india_online 100 ''IN'' (new_session sample_page no_database [])) = Inr [mumbai] \<and>
   trace (snd (citiesFor india_online 100 ''IN'' (new_session sample_page no_database [])))
     = [Fetch (cities_url ''IN'')] \<and>
   fst (citiesFor offline 200 ''IN''
          (snd (citiesFor india_online 100 ''IN'' (new_session sample_page no_database []))))
     = Inr [pune] \<and>
   length (filter is_Fetch (trace (snd (citiesFor offline 200 ''IN''
          (snd (citiesFor india_online 100 ''IN'' (new_session sample_page no_database []))))))) = 1"
proof -
  let ?w = "new_session sample_page no_database []"
  let ?w1 = "snd (citiesFor india_online 100 ''IN'' ?w)"
  have h1: "citiesCache ?w ''IN'' = None"
    by (simp add: new_session_def)
  have f: "fst (citiesFor india_online 100 ''IN'' ?w) = Inr [mumbai]"
    by (simp add: citiesFor_def citiesCache_get_def object_prototype_keys_def new_session_def
        india_online_def ok_def cities_of_state_def js_parseInt_def get_prop_def mumbai_def
        pune_def Let_def)
  then have h2: "citiesFor india_online 100 ''IN'' ?w = (Inr [mumbai], ?w1)"
    by (simp add: prod_eq_iff)
  have c: "citiesCache ?w1 ''IN'' = Some [mumbai, pune]"
    by (simp add: citiesFor_def citiesCache_get_def object_prototype_keys_def new_session_def
        india_online_def ok_def emit_def Let_def)
  note r = overlay_idempotence [OF h1 h2]
  from r have t: "trace ?w1 = [Fetch (cities_url ''IN'')]"
    by (simp add: new_session_def)
  from r obtain arr where a: "citiesCache ?w1 ''IN'' = Some arr"
    and l0: "\<forall>acts e2 s2. citiesFor e2 s2 ''IN'' (perform_all acts ?w1) =
                 (Inr (cities_of_state e2 s2 arr), perform_all acts ?w1)"
    by blast
  from a c have "arr = [mumbai, pune]" by simp
  with l0 have l: "citiesFor offline 200 ''IN'' (perform_all [] ?w1) =
              (Inr (cities_of_state offline 200 [mumbai, pune]), perform_all [] ?w1)"
    by blast
  from r have "\<forall>e2 s2. length (filter is_Fetch (trace (snd (citiesFor e2 s2 ''IN'' ?w1)))) =
                     length (filter is_Fetch (trace ?w)) + 1"
    by blast
  then have n: "length (filter is_Fetch (trace (snd (citiesFor offline 200 ''IN'' ?w1)))) = 1"
    by (simp add: new_session_def)
  from l have "fst (citiesFor offline 200 ''IN'' ?w1) = Inr [pune]"
    by (simp add: cities_of_state_def offline_def js_parseInt_def get_prop_def mumbai_def pune_def)
  with h1 f t n show ?thesis by simp
qed

lemma filterCities_hit:
  assumes "citiesCache w code = Some arr" and "tbodies (page w) ''cities'' = Some v"
  shows "filterCities e s code w =
           renderCities (cities_of_state e s arr)
             ((set_tbody ''cities'' LoadingCities w)
                \<lparr>currentSelections :=
                   (currentSelections (set_tbody ''cities'' LoadingCities w))\<lparr>state := Some s\<rparr>\<rparr>)"
proof -
  let ?w2 = "(set_tbody ''cities'' LoadingCities w)
                \<lparr>currentSelections :=
                   (currentSelections (set_tbody ''cities'' LoadingCities w))\<lparr>state := Some s\<rparr>\<rparr>"
  have "citiesCache ?w2 code = Some arr" using assms(1) by simp
  from citiesFor_hit [OF this, of e s] show ?thesis
    unfolding filterCities_unfold [OF assms(2)] by simp
qed

lemma js_parseInt_small: "\<bar>n\<bar> < 10 ^ 21 \<Longrightarrow> js_parseInt n = n"
  by (simp add: js_parseInt_def)

lemma js_parseInt_10_21: "js_parseInt 1000000000000000000000 = 1"
  by (simp add: js_parseInt_def leading_digit.simps)

text \<open>
  Claim C9, as the code has it. Once the overlay holds a city array for a country code,
  \<open>citiesFor\<close> returns exactly the records of that array whose \<open>state_id\<close> equals
  \<open>parseInt(stateId, 10)\<close>, in the order of the array, without touching network or
  state. For a state identifier that \<open>parseInt\<close> returns unchanged these are the records
  whose \<open>state_id\<close> equals the identifier, and \<open>filterCities\<close> displays them. For the
  cached array of Mumbai (state 100) and Pune (state 200), the call for state 100 and
  code IN returns Mumbai only.
\<close>

theorem cached_cities_filtered_by_state:
  assumes "citiesCache w code = Some arr"
  shows "citiesFor e stateId code w =
           (Inr (filter (\<lambda>c. get_prop c ''state_id'' = Some (JNum (parseInt e stateId))) arr), w) \<and>
         (parseInt e stateId = stateId \<longrightarrow>
            citiesFor e stateId code w =
              (Inr (filter (\<lambda>c. get_prop c ''state_id'' = Some (JNum stateId)) arr), w) \<and>
            (tbodies (page w) ''cities'' \<noteq> None \<longrightarrow>
               tbodies (page (filterCities e stateId code w)) ''cities'' =
                 Some (if filter (\<lambda>c. get_prop c ''state_id'' = Some (JNum stateId)) arr = []
                       then NoResults
                       else Rows (filter (\<lambda>c. get_prop c ''state_id'' = Some (JNum stateId)) arr)) \<and>
               trace (filterCities e stateId code w) = trace w \<and>
               citiesCache (filterCities e stateId code w) = citiesCache w))"
proof (intro conjI impI)
  show g: "citiesFor e stateId code w =
           (Inr (filter (\<lambda>c. get_prop c ''state_id'' = Some (JNum (parseInt e stateId))) arr), w)"
    using assms by (simp add: citiesFor_def citiesCache_get_def cities_of_state_def)
  assume p: "parseInt e stateId = stateId"
  from g p show "citiesFor e stateId code w =
              (Inr (filter (\<lambda>c. get_prop c ''state_id'' = Some (JNum stateId)) arr), w)"
    by simp
  assume "tbodies (page w) ''cities'' \<noteq> None"
  then obtain v where v: "tbodies (page w) ''cities'' = Some v" by blast
  show "tbodies (page (filterCities e stateId code w)) ''cities'' =
              Some (if filter (\<lambda>c. get_prop c ''state_id'' = Some (JNum stateId)) arr = []
                    then NoResults
                    else Rows (filter (\<lambda>c. get_prop c ''state_id'' = Some (JNum stateId)) arr))"
    unfolding filterCities_hit [OF assms v]
    by (simp add: renderCities_def tbodies_render_list cities_of_state_def p)
  show "trace (filterCities e stateId code w) = trace w"
    unfolding filterCities_hit [OF assms v]
    by (simp add: renderCities_def)
  show "citiesCache (filterCities e stateId code w) = citiesCache w"
    unfolding filterCities_hit [OF assms v]
    by (simp add: renderCities_def)
qed

theorem cached_cities_filtered_by_state_witness:
  "citiesCache ((new_session sample_page no_database [])\<lparr>citiesCache := [''IN'' \<mapsto> [mumbai, pune]]\<rparr>) ''IN''
      = Some [mumbai, pune] \<and>
   parseInt offline 100 = 100 \<and>
   fst (citiesFor offline 100 ''IN''
      ((new_session sample_page no_database [])\<lparr>citiesCache := [''IN'' \<mapsto> [mumbai, pune]]\<rparr>)) = Inr [mumbai] \<and>
   tbodies (page (filterCities offline 100 ''IN''
      ((new_session sample_page no_database [])\<lparr>citiesCache := [''IN'' \<mapsto> [mumbai, pune]]\<rparr>))) ''cities''
      = Some (Rows [mumbai])"
proof -
  let ?w = "(new_session sample_page no_database [])\<lparr>citiesCache := [''IN'' \<mapsto> [mumbai, pune]]\<rparr>"
  have h: "citiesCache ?w ''IN'' = Some [mumbai, pune]"
    by (simp add: new_session_def)
  have p: "parseInt offline 100 = 100"
    by (simp add: offline_def js_parseInt_small)
  have t: "tbodies (page ?w) ''cities'' \<noteq> None"
    by (simp add: new_session_def sample_page_def)
  from cached_cities_filtered_by_state [OF h, of offline 100] p t h
  show ?thesis
    by (simp add: get_prop_def mumbai_def pune_def)
qed

text \<open>
  Claim C9 as stated fails for a state identifier that \<open>parseInt\<close> does not return
  unchanged. The number \<open>10^21\<close> prints as \<open>1e+21\<close>, which \<open>parseInt\<close> reads as 1: from a
  cached array of a city of state 1 and a city of state \<open>10^21\<close>, the call for state
  \<open>10^21\<close> returns the city of state 1 and not the city of state \<open>10^21\<close>.
\<close>

theorem state_identifier_in_exponent_notation:
  "parseInt offline 1000000000000000000000 = 1 \<and>
   fst (citiesFor offline 1000000000000000000000 ''IN''
      ((new_session sample_page no_database [])
         \<lparr>citiesCache := [''IN'' \<mapsto> [first_state_city, far_state_city]]\<rparr>)) = Inr [first_state_city] \<and>
   filter (\<lambda>c. get_prop c ''state_id'' = Some (JNum 1000000000000000000000))
      [first_state_city, far_state_city] = [far_state_city]"
  by (simp add: citiesFor_def citiesCache_get_def cities_of_state_def new_session_def offline_def
      js_parseInt_10_21 get_prop_def first_state_city_def far_state_city_def)

end
